theory Spec2Isabelle
  imports Complex_Main
begin

section \<open>Python values and exceptions\<close>

text \<open>
  The processor of \<^verbatim>\<open>cloud-run/finance-operations/main.py\<close> handles untyped JSON
  data: the request body, the dictionaries it builds and the value that
  \<^verbatim>\<open>json.loads\<close> returns for the script's last output line. A dictionary is an
  association list in insertion order, looked up with \<open>map_of\<close>. Floats are finite
  reals here (only their truth value is ever inspected); strings are lists of 8-bit
  characters, so code points above 255 are not represented.
\<close>

datatype pyval =
    PNone
  | PBool bool
  | PInt int
  | PFloat real
  | PStr string
  | PList "pyval list"
  | PDict "(string \<times> pyval) list"

type_synonym pydict = "(string \<times> pyval) list"

datatype pyexc =
    TypeError string
  | AttributeError string
  | KeyError string
  | IndexError string
  | FileNotFoundError string
  | JSONDecodeError string
  | TimeoutExpired "string option" "string option"
  | ExternalError string

definition quoted :: "string \<Rightarrow> string" where
  "quoted s = [CHR 0x27] @ s @ [CHR 0x27]"

text \<open>\<open>str(e)\<close>. A \<open>TimeoutExpired\<close> carries the output captured before the child
  was killed (\<open>None\<close> when nothing was captured).\<close>

fun exc_str :: "pyexc \<Rightarrow> string" where
  "exc_str (TypeError m) = m"
| "exc_str (AttributeError m) = m"
| "exc_str (KeyError k) = quoted k"
| "exc_str (IndexError m) = m"
| "exc_str (FileNotFoundError m) = m"
| "exc_str (JSONDecodeError m) = m"
| "exc_str (TimeoutExpired out err) = ''Command timed out after 300 seconds''"
| "exc_str (ExternalError m) = m"

fun type_name :: "pyval \<Rightarrow> string" where
  "type_name PNone = ''NoneType''"
| "type_name (PBool b) = ''bool''"
| "type_name (PInt i) = ''int''"
| "type_name (PFloat x) = ''float''"
| "type_name (PStr s) = ''str''"
| "type_name (PList xs) = ''list''"
| "type_name (PDict d) = ''dict''"

text \<open>Truth value of a Python object, as \<^verbatim>\<open>if callback_url:\<close> tests it.\<close>

fun truthy :: "pyval \<Rightarrow> bool" where
  "truthy PNone = False"
| "truthy (PBool b) = b"
| "truthy (PInt i) = (i \<noteq> 0)"
| "truthy (PFloat x) = (x \<noteq> 0)"
| "truthy (PStr s) = (s \<noteq> [])"
| "truthy (PList xs) = (xs \<noteq> [])"
| "truthy (PDict d) = (d \<noteq> [])"

text \<open>\<open>d.get(k, dflt)\<close> and \<open>d[k]\<close> on a dictionary.\<close>

definition dict_get :: "pydict \<Rightarrow> string \<Rightarrow> pyval \<Rightarrow> pyval" where
  "dict_get d k dflt = (case map_of d k of Some v \<Rightarrow> v | None \<Rightarrow> dflt)"

definition dict_item :: "pydict \<Rightarrow> string \<Rightarrow> pyexc + pyval" where
  "dict_item d k = (case map_of d k of Some v \<Rightarrow> Inr v | None \<Rightarrow> Inl (KeyError k))"

text \<open>\<open>v.get(k, dflt)\<close> on an arbitrary value: only a dictionary has the method.\<close>

fun py_get :: "pyval \<Rightarrow> string \<Rightarrow> pyval \<Rightarrow> pyexc + pyval" where
  "py_get (PDict d) k dflt = Inr (dict_get d k dflt)"
| "py_get v k dflt =
     Inl (AttributeError (quoted (type_name v) @ '' object has no attribute '' @ quoted ''get''))"

text \<open>\<open>v[k]\<close> with a string key on an arbitrary value.\<close>

fun py_subscript :: "pyval \<Rightarrow> string \<Rightarrow> pyexc + pyval" where
  "py_subscript (PDict d) k = dict_item d k"
| "py_subscript (PStr s) k =
     Inl (TypeError (''string indices must be integers, not '' @ quoted ''str''))"
| "py_subscript (PList xs) k =
     Inl (TypeError ''list indices must be integers or slices, not str'')"
| "py_subscript v k =
     Inl (TypeError (quoted (type_name v) @ '' object is not subscriptable''))"

section \<open>String operations\<close>

text \<open>\<open>str.isspace\<close> on the code points below 256.\<close>

definition py_isspace :: "char \<Rightarrow> bool" where
  "py_isspace c = (c \<in> set [CHR 0x09, CHR 0x0A, CHR 0x0B, CHR 0x0C, CHR 0x0D,
                             CHR 0x1C, CHR 0x1D, CHR 0x1E, CHR 0x1F, CHR 0x20,
                             CHR 0x85, CHR 0xA0])"

definition lstrip :: "string \<Rightarrow> string" where
  "lstrip s = dropWhile py_isspace s"

definition rstrip :: "string \<Rightarrow> string" where
  "rstrip s = rev (dropWhile py_isspace (rev s))"

definition strip :: "string \<Rightarrow> string" where
  "strip s = lstrip (rstrip s)"

text \<open>\<open>s.split('\n')\<close>: never the empty list.\<close>

fun split_nl :: "string \<Rightarrow> string list" where
  "split_nl [] = [[]]"
| "split_nl (c # cs) =
     (if c = CHR 0x0A then [] # split_nl cs
      else (case split_nl cs of [] \<Rightarrow> [[c]] | l # ls \<Rightarrow> (c # l) # ls))"

text \<open>\<open>xs[-1]\<close>.\<close>

definition last_item :: "'a list \<Rightarrow> pyexc + 'a" where
  "last_item xs = (if xs = [] then Inl (IndexError ''list index out of range'') else Inr (last xs))"

text \<open>\<open>os.path.join(a, b)\<close> on POSIX: an absolute second component replaces the
  first; a component that is not a string raises.\<close>

fun os_path_join :: "string \<Rightarrow> pyval \<Rightarrow> pyexc + string" where
  "os_path_join a (PStr b) =
     Inr (if b \<noteq> [] \<and> hd b = CHR ''/'' then b
          else if a = [] \<or> last a = CHR ''/'' then a @ b
          else a @ ''/'' @ b)"
| "os_path_join a v =
     Inl (TypeError (''join() argument must be str, bytes, or os.PathLike object, not '' @
                     quoted (type_name v)))"

section \<open>The world outside the processor\<close>

text \<open>
  Every call the processor makes to a collaborator (Cloud Storage, the child process,
  \<^verbatim>\<open>json.loads\<close>, the callback endpoint, the clock) is answered by a field of the
  world; the local file system is the list of existing paths, and the trace records
  the calls made, oldest first. \<open>tmp_name\<close> is the name that
  \<^verbatim>\<open>NamedTemporaryFile\<close> gives the next file; \<open>blob_download\<close> answers
  \<^verbatim>\<open>download_to_filename\<close> for a blob name; \<open>subprocess_run\<close> is the outcome of
  \<^verbatim>\<open>subprocess.run\<close> for a script, an input path and an execution id, and
  \<open>script_effect\<close> what that call does to the local files; \<open>storage_upload\<close>
  is the outcome of uploading a local file for an execution id; \<open>json_loads\<close> is
  \<^verbatim>\<open>json.loads\<close> (\<open>None\<close> where it raises); \<open>requests_post\<close> answers
  \<^verbatim>\<open>requests.post\<close> for a URL and a payload.
\<close>

datatype dl_outcome =
    Downloaded
  | DownloadFailed string bool
    \<comment> \<open>message; whether the library leaves the temporary file in place\<close>

datatype run_outcome =
    Completed int string string    \<comment> \<open>return code, stdout, stderr\<close>
  | TimedOut "string option" "string option"  \<comment> \<open>output captured before the kill\<close>
  | RunFailed string               \<comment> \<open>\<open>subprocess.run\<close> raised something else\<close>

datatype post_outcome =
    Responded int
  | PostRaised string

datatype event =
    DownloadBlob pyval string           \<comment> \<open>blob name, local file\<close>
  | RunSubprocess string string string  \<comment> \<open>script, INPUT_CSV_PATH, EXECUTION_ID\<close>
  | UploadResult string pyval           \<comment> \<open>local file, execution id\<close>
  | HttpPost pyval pyval string         \<comment> \<open>url, JSON payload, Authorization header\<close>
  | Unlink string

record world =
  fs :: "string list"
  trace :: "event list"
  tmp_name :: string
  blob_download :: "pyval \<Rightarrow> dl_outcome"
  subprocess_run :: "string \<Rightarrow> string \<Rightarrow> string \<Rightarrow> run_outcome"
  script_effect :: "string \<Rightarrow> string \<Rightarrow> string \<Rightarrow> string list \<Rightarrow> string list"
  storage_upload :: "string \<Rightarrow> pyval \<Rightarrow> pyexc + pyval"
  json_loads :: "string \<Rightarrow> pyval option"
  requests_post :: "pyval \<Rightarrow> pyval \<Rightarrow> post_outcome"
  now_iso :: string
  webhook_secret :: "string option"

definition path_exists :: "world \<Rightarrow> string \<Rightarrow> bool" where
  "path_exists w p = (p \<in> set (fs w))"

definition log_event :: "event \<Rightarrow> world \<Rightarrow> world" where
  "log_event e w = w\<lparr>trace := trace w @ [e]\<rparr>"

text \<open>\<open>os.unlink(p)\<close>: raises when the path does not exist.\<close>

definition os_unlink :: "world \<Rightarrow> string \<Rightarrow> world \<times> (pyexc + unit)" where
  "os_unlink w p =
     (if path_exists w p
      then (log_event (Unlink p) (w\<lparr>fs := removeAll p (fs w)\<rparr>), Inr ())
      else (w, Inl (FileNotFoundError (''[Errno 2] No such file or directory: '' @ p))))"

section \<open>download_file_from_storage\<close>

text \<open>
  Making the bucket and blob handles sends no request; the first thing that can fail is
  the subscript \<^verbatim>\<open>file_reference['storagePath']\<close>. Then
  \<^verbatim>\<open>NamedTemporaryFile(delete=False)\<close> creates the local file, and only then the blob
  is downloaded. The \<^verbatim>\<open>except\<close> clause logs and re-raises.
\<close>

definition download_file_from_storage :: "world \<Rightarrow> pyval \<Rightarrow> world \<times> (pyexc + string)" where
  "download_file_from_storage w file_reference =
     (case py_subscript file_reference ''storagePath'' of
        Inl e \<Rightarrow> (w, Inl e)
      | Inr blob_name \<Rightarrow>
          (let tmp = tmp_name w;
               w1 = log_event (DownloadBlob blob_name tmp) (w\<lparr>fs := List.insert tmp (fs w)\<rparr>)
           in case blob_download w blob_name of
                Downloaded \<Rightarrow> (w1, Inr tmp)
              | DownloadFailed msg kept \<Rightarrow>
                  ((if kept then w1 else w1\<lparr>fs := removeAll tmp (fs w1)\<rparr>),
                   Inl (ExternalError msg))))"

section \<open>upload_result_to_storage\<close>

text \<open>
  The body consists of Cloud Storage calls (upload, signed URL), the clock and
  \<^verbatim>\<open>os.path.getsize\<close>; the world answers with the descriptor or the exception, and the
  \<^verbatim>\<open>except\<close> clause re-raises it.
\<close>

definition upload_result_to_storage :: "world \<Rightarrow> string \<Rightarrow> pyval \<Rightarrow> world \<times> (pyexc + pyval)" where
  "upload_result_to_storage w file_path execution_id =
     (log_event (UploadResult file_path execution_id) w,
      case storage_upload w file_path execution_id of
        Inl e \<Rightarrow> Inl e
      | Inr descriptor \<Rightarrow> Inr descriptor)"

section \<open>execute_script\<close>

definition script_dir :: string where
  "script_dir = ''/app/scripts''"

text \<open>The \<^verbatim>\<open>try\<close> block. \<^verbatim>\<open>subprocess.run\<close> refuses an environment value that is
  not a string, so an execution id that is no string raises before any child starts.
  Otherwise the call is recorded, and the world says what the call did to the local
  files and how it ended.\<close>

definition execute_script_try ::
  "world \<Rightarrow> pyval \<Rightarrow> string \<Rightarrow> pyval \<Rightarrow> world \<times> (pyexc + pydict)" where
  "execute_script_try w script_path input_file_path execution_id =
     (case os_path_join script_dir script_path of
        Inl e \<Rightarrow> (w, Inl e)
      | Inr full_script_path \<Rightarrow>
          if \<not> path_exists w full_script_path
          then (w, Inl (FileNotFoundError (''Script not found: '' @ full_script_path)))
          else (case execution_id of
                  PStr eid \<Rightarrow>
                    (let w1 = log_event (RunSubprocess full_script_path input_file_path eid) w;
                         w2 = w1\<lparr>fs := script_effect w full_script_path input_file_path eid (fs w1)\<rparr>
                     in case subprocess_run w full_script_path input_file_path eid of
                          Completed returncode out err \<Rightarrow>
                            if returncode = 0
                            then (w2, Inr [(''success'', PBool True),
                                           (''stdout'', PStr out),
                                           (''stderr'', PStr err),
                                           (''returncode'', PInt returncode)])
                            else (w2, Inr [(''success'', PBool False),
                                           (''stdout'', PStr out),
                                           (''stderr'', PStr err),
                                           (''returncode'', PInt returncode)])
                        | TimedOut out err \<Rightarrow> (w2, Inl (TimeoutExpired out err))
                        | RunFailed msg \<Rightarrow> (w2, Inl (ExternalError msg)))
                | v \<Rightarrow> (w, Inl (TypeError
                          (''expected str, bytes or os.PathLike object, not '' @ type_name v)))))"

text \<open>The two \<^verbatim>\<open>except\<close> clauses, in the source's order.\<close>

definition execute_script ::
  "world \<Rightarrow> pyval \<Rightarrow> string \<Rightarrow> pyval \<Rightarrow> world \<times> (pyexc + pydict)" where
  "execute_script w script_path input_file_path execution_id =
     (case execute_script_try w script_path input_file_path execution_id of
        (w', Inr result) \<Rightarrow> (w', Inr result)
      | (w', Inl (TimeoutExpired out err)) \<Rightarrow>
          (w', Inr [(''success'', PBool False),
                    (''error'', PStr ''Script execution timed out after 5 minutes'')])
      | (w', Inl e) \<Rightarrow>
          (w', Inr [(''success'', PBool False),
                    (''error'', PStr (exc_str e))]))"

section \<open>send_webhook_notification\<close>

definition webhook_payload :: "world \<Rightarrow> pyval \<Rightarrow> string \<Rightarrow> pyval \<Rightarrow> pyval" where
  "webhook_payload w execution_id status results =
     PDict [(''executionId'', execution_id),
            (''status'', PStr status),
            (''results'', results),
            (''timestamp'', PStr (now_iso w))]"

definition authorization_header :: "world \<Rightarrow> string" where
  "authorization_header w =
     ''Bearer '' @ (case webhook_secret w of None \<Rightarrow> ''None'' | Some s \<Rightarrow> s)"

definition send_webhook_try ::
  "world \<Rightarrow> pyval \<Rightarrow> pyval \<Rightarrow> string \<Rightarrow> pyval \<Rightarrow> world \<times> (pyexc + unit)" where
  "send_webhook_try w callback_url execution_id status results =
     (let payload = webhook_payload w execution_id status results;
          w1 = log_event (HttpPost callback_url payload (authorization_header w)) w
      in case requests_post w callback_url payload of
           Responded code \<Rightarrow> (w1, Inr ())
         | PostRaised msg \<Rightarrow> (w1, Inl (ExternalError msg)))"

text \<open>The whole body sits in \<^verbatim>\<open>try ... except Exception\<close>: an exception is logged
  and dropped.\<close>

definition send_webhook_notification ::
  "world \<Rightarrow> pyval \<Rightarrow> pyval \<Rightarrow> string \<Rightarrow> pyval \<Rightarrow> world \<times> (pyexc + unit)" where
  "send_webhook_notification w callback_url execution_id status results =
     (case send_webhook_try w callback_url execution_id status results of
        (w', Inr u) \<Rightarrow> (w', Inr ())
      | (w', Inl e) \<Rightarrow> (w', Inr ()))"

section \<open>process_finance_operation\<close>

subsection \<open>Metrics from the script's standard output\<close>

text \<open>
  \<^verbatim>\<open>if stdout.strip(): metrics = json.loads(stdout.strip().split('\n')[-1])\<close>,
  \<^verbatim>\<open>else: metrics = {}\<close>, inside a \<^verbatim>\<open>try\<close> whose bare \<^verbatim>\<open>except\<close> sets
  \<^verbatim>\<open>metrics = {}\<close>.
\<close>

definition parse_metrics_try :: "world \<Rightarrow> pydict \<Rightarrow> pyexc + pyval" where
  "parse_metrics_try w script_result =
     (case dict_item script_result ''stdout'' of
        Inl e \<Rightarrow> Inl e
      | Inr (PStr out) \<Rightarrow>
          if strip out \<noteq> []
          then (case last_item (split_nl (strip out)) of
                  Inl e \<Rightarrow> Inl e
                | Inr line \<Rightarrow>
                    (case json_loads w line of
                       None \<Rightarrow> Inl (JSONDecodeError ''Expecting value'')
                     | Some v \<Rightarrow> Inr v))
          else Inr (PDict [])
      | Inr v \<Rightarrow>
          Inl (AttributeError
                 (quoted (type_name v) @ '' object has no attribute '' @ quoted ''strip'')))"

definition parse_metrics :: "world \<Rightarrow> pydict \<Rightarrow> pyval" where
  "parse_metrics w script_result =
     (case parse_metrics_try w script_result of Inl e \<Rightarrow> PDict [] | Inr v \<Rightarrow> v)"

subsection \<open>The result dictionaries\<close>

text \<open>
  The success branch calls \<^verbatim>\<open>metrics.get\<close> eight times, outside the \<^verbatim>\<open>try\<close> above:
  the first call raises \<open>AttributeError\<close> unless \<open>metrics\<close> is a dictionary.
\<close>

definition success_results :: "pyval \<Rightarrow> pyval list \<Rightarrow> pyexc + pyval" where
  "success_results metrics output_files =
     (case metrics of
        PDict m \<Rightarrow>
          (let success_message =
                 ''Processing completed successfully'' @
                 (if truthy (dict_get m ''mocked'' PNone)
                  then '' (MOCKED - No real Stripe API calls made)'' else [])
           in Inr (PDict [(''success'', PBool True),
                          (''message'', PStr success_message),
                          (''recordsProcessed'', dict_get m ''recordsProcessed'' (PInt 0)),
                          (''recordsSuccessful'', dict_get m ''recordsSuccessful'' (PInt 0)),
                          (''recordsFailed'', dict_get m ''recordsFailed'' (PInt 0)),
                          (''totalAmount'', dict_get m ''totalAmount'' PNone),
                          (''currency'', dict_get m ''currency'' PNone),
                          (''mocked'', dict_get m ''mocked'' (PBool False)),
                          (''note'', dict_get m ''note'' PNone),
                          (''data'', metrics),
                          (''outputFiles'', PList output_files)]))
      | v \<Rightarrow>
          Inl (AttributeError
                 (quoted (type_name v) @ '' object has no attribute '' @ quoted ''get'')))"

definition failure_results :: "pydict \<Rightarrow> pyval" where
  "failure_results script_result =
     PDict [(''success'', PBool False),
            (''message'', PStr ''Processing failed''),
            (''errors'', PList [dict_get script_result ''error'' (PStr ''Unknown error'')]),
            (''data'', PDict [(''stdout'', dict_get script_result ''stdout'' (PStr [])),
                             (''stderr'', dict_get script_result ''stderr'' (PStr [])),
                             (''returncode'', dict_get script_result ''returncode'' PNone)])]"

definition result_file_path :: string where
  "result_file_path = ''/tmp/result.csv''"

text \<open>The \<^verbatim>\<open>if script_result['success']: ... else: ...\<close> block: the results and the
  status.\<close>

definition build_results ::
  "world \<Rightarrow> pydict \<Rightarrow> pyval \<Rightarrow> world \<times> (pyexc + pyval \<times> string)" where
  "build_results w script_result execution_id =
     (case dict_item script_result ''success'' of
        Inl e \<Rightarrow> (w, Inl e)
      | Inr ok \<Rightarrow>
          if truthy ok
          then (case (if path_exists w result_file_path
                      then (case upload_result_to_storage w result_file_path execution_id of
                              (w1, Inl e) \<Rightarrow> (w1, Inl e)
                            | (w1, Inr result_file_ref) \<Rightarrow> (w1, Inr [result_file_ref]))
                      else (w, Inr [])) of
                  (w1, Inl e) \<Rightarrow> (w1, Inl e)
                | (w1, Inr output_files) \<Rightarrow>
                    (case success_results (parse_metrics w1 script_result) output_files of
                       Inl e \<Rightarrow> (w1, Inl e)
                     | Inr results \<Rightarrow> (w1, Inr (results, ''completed''))))
          else (w, Inr (failure_results script_result, ''failed'')))"

subsection \<open>Cleanup\<close>

text \<open>
  \<^verbatim>\<open>try: os.unlink(input_file_path); if os.path.exists('/tmp/result.csv'): os.unlink(...)\<close>
  \<^verbatim>\<open>except: pass\<close>. It stands after the webhook call, in the normal flow of the \<^verbatim>\<open>try\<close>
  block only.
\<close>

definition cleanup_try :: "world \<Rightarrow> string \<Rightarrow> world \<times> (pyexc + unit)" where
  "cleanup_try w input_file_path =
     (case os_unlink w input_file_path of
        (w1, Inl e) \<Rightarrow> (w1, Inl e)
      | (w1, Inr u) \<Rightarrow>
          if path_exists w1 ''/tmp/result.csv''
          then os_unlink w1 ''/tmp/result.csv''
          else (w1, Inr ()))"

definition cleanup :: "world \<Rightarrow> string \<Rightarrow> world" where
  "cleanup w input_file_path = fst (cleanup_try w input_file_path)"

subsection \<open>The endpoint\<close>

record response =
  status_code :: nat
  body :: pyval

text \<open>The five \<^verbatim>\<open>data.get(...)\<close> calls: on a body that is no dictionary the first one
  raises, so no local variable is bound.\<close>

definition parse_request :: "pyval \<Rightarrow> pyexc + (pyval \<times> pyval \<times> pyval \<times> pyval \<times> pyval)" where
  "parse_request data =
     (case py_get data ''executionId'' PNone of
        Inl e \<Rightarrow> Inl e
      | Inr execution_id \<Rightarrow>
     (case py_get data ''operationId'' PNone of
        Inl e \<Rightarrow> Inl e
      | Inr operation_id \<Rightarrow>
     (case py_get data ''scriptPath'' PNone of
        Inl e \<Rightarrow> Inl e
      | Inr script_path \<Rightarrow>
     (case py_get data ''fileReference'' PNone of
        Inl e \<Rightarrow> Inl e
      | Inr file_reference \<Rightarrow>
     (case py_get data ''callbackUrl'' PNone of
        Inl e \<Rightarrow> Inl e
      | Inr callback_url \<Rightarrow>
          Inr (execution_id, operation_id, script_path, file_reference, callback_url))))))"

text \<open>The rest of the \<^verbatim>\<open>try\<close> block, from the download to the 200 response.\<close>

definition run_job ::
  "world \<Rightarrow> pyval \<Rightarrow> pyval \<Rightarrow> pyval \<Rightarrow> pyval \<Rightarrow> world \<times> (pyexc + response)" where
  "run_job w execution_id script_path file_reference callback_url =
     (case download_file_from_storage w file_reference of
        (w1, Inl e) \<Rightarrow> (w1, Inl e)
      | (w1, Inr input_file_path) \<Rightarrow>
     (case execute_script w1 script_path input_file_path execution_id of
        (w2, Inl e) \<Rightarrow> (w2, Inl e)
      | (w2, Inr script_result) \<Rightarrow>
     (case build_results w2 script_result execution_id of
        (w3, Inl e) \<Rightarrow> (w3, Inl e)
      | (w3, Inr (results, status)) \<Rightarrow>
     (case (if truthy callback_url
            then send_webhook_notification w3 callback_url execution_id status results
            else (w3, Inr ())) of
        (w4, Inl e) \<Rightarrow> (w4, Inl e)
      | (w4, Inr u) \<Rightarrow>
          (cleanup w4 input_file_path,
           Inr \<lparr>status_code = 200,
                body = PDict [(''success'', PBool True),
                              (''executionId'', execution_id),
                              (''status'', PStr status),
                              (''results'', results)]\<rparr>)))))"

definition error_response :: "pyexc \<Rightarrow> response" where
  "error_response e =
     \<lparr>status_code = 500,
      body = PDict [(''success'', PBool False), (''error'', PStr (exc_str e))]\<rparr>"

definition error_results :: "pyexc \<Rightarrow> pyval" where
  "error_results e =
     PDict [(''success'', PBool False),
            (''message'', PStr (''Processing error: '' @ exc_str e)),
            (''errors'', PList [PStr (exc_str e)])]"

text \<open>
  The handler \<^verbatim>\<open>except Exception as e\<close>: the failure notification goes out when
  \<^verbatim>\<open>callback_url\<close> and \<^verbatim>\<open>execution_id\<close> are bound as local variables, whatever
  their values. The request is what \<^verbatim>\<open>request.get_json()\<close> yields, an exception
  or the decoded body.
\<close>

definition process_finance_operation ::
  "world \<Rightarrow> pyexc + pyval \<Rightarrow> world \<times> (pyexc + response)" where
  "process_finance_operation w request_json =
     (case request_json of
        Inl e \<Rightarrow> (w, Inr (error_response e))
      | Inr data \<Rightarrow>
     (case parse_request data of
        Inl e \<Rightarrow> (w, Inr (error_response e))
      | Inr (execution_id, operation_id, script_path, file_reference, callback_url) \<Rightarrow>
     (case run_job w execution_id script_path file_reference callback_url of
        (w1, Inr resp) \<Rightarrow> (w1, Inr resp)
      | (w1, Inl e) \<Rightarrow>
     (case send_webhook_notification w1 callback_url execution_id ''failed'' (error_results e) of
        (w2, Inl e') \<Rightarrow> (w2, Inl e')
      | (w2, Inr u) \<Rightarrow> (w2, Inr (error_response e))))))"

section \<open>Observing responses and effects\<close>

text \<open>A field of a JSON object, and the calls of one kind that a run has made.\<close>

definition py_field :: "pyval \<Rightarrow> string \<Rightarrow> pyval option" where
  "py_field v k = (case v of PDict d \<Rightarrow> map_of d k | _ \<Rightarrow> None)"

datatype kind = KDownload | KRun | KUpload | KPost | KUnlink

fun kind_of :: "event \<Rightarrow> kind" where
  "kind_of (DownloadBlob b p) = KDownload"
| "kind_of (RunSubprocess s i e) = KRun"
| "kind_of (UploadResult p e) = KUpload"
| "kind_of (HttpPost u p a) = KPost"
| "kind_of (Unlink p) = KUnlink"

definition events_of :: "kind \<Rightarrow> world \<Rightarrow> event list" where
  "events_of k w = filter (\<lambda>e. kind_of e = k) (trace w)"

text \<open>
  No step changes what the world answers: only the file system and the trace move.
\<close>

definition same_env :: "world \<Rightarrow> world \<Rightarrow> bool" where
  "same_env w w' = (w' = w\<lparr>fs := fs w', trace := trace w'\<rparr>)"

text \<open>
  The two answers to a job that did not complete. A failed job result is a 200
  response whose status is "failed" and whose results, a JobResult, carry
  \<open>success: False\<close>. The error envelope is the 500 response
  \<open>{success: False, error}\<close>; it holds no results.
\<close>

definition failed_job_result :: "response \<Rightarrow> bool" where
  "failed_job_result resp =
     (status_code resp = 200 \<and>
      py_field (body resp) ''status'' = Some (PStr ''failed'') \<and>
      (case py_field (body resp) ''results'' of
         Some results \<Rightarrow> py_field results ''success'' = Some (PBool False)
       | None \<Rightarrow> False))"

definition error_envelope :: "response \<Rightarrow> bool" where
  "error_envelope resp =
     (status_code resp = 500 \<and>
      py_field (body resp) ''success'' = Some (PBool False) \<and>
      py_field (body resp) ''results'' = None)"

text \<open>A POST to the callback URL whose payload has status "failed" and results with
  \<open>success: False\<close>.\<close>

definition failure_post :: "pyval \<Rightarrow> event \<Rightarrow> bool" where
  "failure_post callback_url e =
     (case e of
        HttpPost url payload auth \<Rightarrow>
          url = callback_url \<and>
          py_field payload ''status'' = Some (PStr ''failed'') \<and>
          (case py_field payload ''results'' of
             Some results \<Rightarrow> py_field results ''success'' = Some (PBool False)
           | None \<Rightarrow> False)
      | _ \<Rightarrow> False)"

text \<open>The \<open>errors\<close> of a response's results, and a field of their \<open>data\<close>.\<close>

definition job_errors :: "response \<Rightarrow> pyval option" where
  "job_errors resp =
     (case py_field (body resp) ''results'' of
        Some results \<Rightarrow> py_field results ''errors''
      | None \<Rightarrow> None)"

definition job_data :: "response \<Rightarrow> string \<Rightarrow> pyval option" where
  "job_data resp k =
     (case py_field (body resp) ''results'' of
        Some results \<Rightarrow>
          (case py_field results ''data'' of
             Some data \<Rightarrow> py_field data k
           | None \<Rightarrow> None)
      | None \<Rightarrow> None)"

text \<open>
  The last non-empty line of a text, in the words of the specification: of the lines
  between newlines, the last one that is not empty.
\<close>

definition last_nonempty_line :: "string \<Rightarrow> string option" where
  "last_nonempty_line s =
     (case filter (\<lambda>l. l \<noteq> []) (split_nl s) of
        [] \<Rightarrow> None
      | l # ls \<Rightarrow> Some (last (l # ls)))"



section \<open>Sample runs\<close>

text \<open>
  A container with the payout script installed. The script prints a progress line and
  its metrics, writes no result file and exits 0; \<open>json_loads\<close> lists what
  \<^verbatim>\<open>json.loads\<close> returns on the lines used below.
\<close>

definition metrics_line :: string where
  \<open>metrics_line = ''{"recordsProcessed":6,"recordsSuccessful":6,"recordsFailed":0,"mocked":true}''\<close>

definition metrics_record :: pydict where
  "metrics_record = [(''recordsProcessed'', PInt 6), (''recordsSuccessful'', PInt 6),
                     (''recordsFailed'', PInt 0), (''mocked'', PBool True)]"

definition sample_loads :: "string \<Rightarrow> pyval option" where
  \<open>sample_loads s =
     (if s = metrics_line then Some (PDict metrics_record)
      else if s = ''{}'' then Some (PDict [])
      else if s = ''42'' then Some (PInt 42)
      else None)\<close>

definition sample_world :: world where
  "sample_world =
     \<lparr>fs = [''/app/scripts/stripe_balance_payout.py''],
      trace = [],
      tmp_name = ''/tmp/tmpk3v9x1.csv'',
      blob_download = (\<lambda>b. if b = PStr ''finance-operations/uploads/in.csv''
                            then Downloaded else DownloadFailed ''404 No such object'' False),
      subprocess_run = (\<lambda>s i e. Completed 0 (''progress'' @ [CHR 0x0A] @ metrics_line @ [CHR 0x0A]) ''INFO: done''),
      script_effect = (\<lambda>s i e files. files),
      storage_upload = (\<lambda>p e. Inl (ExternalError ''503 Service Unavailable'')),
      json_loads = sample_loads,
      requests_post = (\<lambda>u p. Responded 200),
      now_iso = ''2024-05-01T12:00:00'',
      webhook_secret = Some ''s3cret''\<rparr>"

definition sample_request :: pydict where
  "sample_request =
     [(''executionId'', PStr ''exec-1''),
      (''operationId'', PStr ''op-1''),
      (''scriptPath'', PStr ''stripe_balance_payout.py''),
      (''fileReference'', PDict [(''storagePath'', PStr ''finance-operations/uploads/in.csv'')]),
      (''callbackUrl'', PStr ''https://app.example/hook'')]"

text \<open>A request for a blob that is not in the bucket.\<close>

definition missing_blob_request :: pydict where
  "missing_blob_request =
     [(''executionId'', PStr ''exec-2''),
      (''operationId'', PStr ''op-2''),
      (''scriptPath'', PStr ''stripe_balance_payout.py''),
      (''fileReference'', PDict [(''storagePath'', PStr ''finance-operations/uploads/gone.csv'')]),
      (''callbackUrl'', PStr ''https://app.example/hook'')]"

text \<open>The script exits 1 with "boom" on standard error.\<close>

definition failing_script_world :: world where
  "failing_script_world =
     sample_world\<lparr>subprocess_run := (\<lambda>s i e. Completed 1 [] ''boom'')\<rparr>"

text \<open>The script is killed at the timeout after printing "progress".\<close>

definition timeout_world :: world where
  "timeout_world =
     sample_world\<lparr>subprocess_run := (\<lambda>s i e. TimedOut (Some ''progress'') (Some ''INFO: started''))\<rparr>"

text \<open>The script exits 0 and prints nothing.\<close>

definition quiet_world :: world where
  "quiet_world = sample_world\<lparr>subprocess_run := (\<lambda>s i e. Completed 0 [] [])\<rparr>"

text \<open>A request without \<open>scriptPath\<close>.\<close>

definition no_script_request :: pydict where
  "no_script_request =
     [(''executionId'', PStr ''exec-3''),
      (''operationId'', PStr ''op-3''),
      (''fileReference'', PDict [(''storagePath'', PStr ''finance-operations/uploads/in.csv'')]),
      (''callbackUrl'', PStr ''https://app.example/hook'')]"

text \<open>The script writes \<^verbatim>\<open>/tmp/result.csv\<close>; the upload to the bucket fails.\<close>

definition result_file_world :: world where
  "result_file_world =
     sample_world\<lparr>script_effect := (\<lambda>s i e files. ''/tmp/result.csv'' # files)\<rparr>"

text \<open>The script exits 0 and prints the JSON number 42.\<close>

definition int_metrics_world :: world where
  "int_metrics_world = sample_world\<lparr>subprocess_run := (\<lambda>s i e. Completed 0 ''42'' [])\<rparr>"

text \<open>A request for a missing blob that gives no callback URL.\<close>

definition no_callback_request :: pydict where
  "no_callback_request =
     [(''executionId'', PStr ''exec-4''),
      (''operationId'', PStr ''op-4''),
      (''scriptPath'', PStr ''stripe_balance_payout.py''),
      (''fileReference'', PDict [(''storagePath'', PStr ''finance-operations/uploads/gone.csv'')])]"


section \<open>Lines of standard output\<close>

lemma split_nl_nonempty: "split_nl s \<noteq> []"
  by (induction s) (auto split: list.splits)

lemma split_nl_single: "CHR 0x0A \<notin> set s \<Longrightarrow> split_nl s = [s]"
  by (induction s) auto

lemma split_nl_append: "split_nl (a @ CHR 0x0A # b) = split_nl a @ split_nl b"
  by (induction a) (auto split: list.splits simp: split_nl_nonempty)

lemma split_nl_newlines: "split_nl (replicate k (CHR 0x0A)) = replicate (Suc k) []"
  by (induction k) auto

lemma split_nl_trailing:
  "split_nl (s @ replicate k (CHR 0x0A)) = split_nl s @ replicate k []"
proof (cases k)
  case 0
  then show ?thesis by simp
next
  case (Suc j)
  have "split_nl (s @ CHR 0x0A # replicate j (CHR 0x0A)) = split_nl s @ replicate (Suc j) []"
    by (simp only: split_nl_append split_nl_newlines)
  with Suc show ?thesis by simp
qed

lemma last_line_decomposition:
  "\<exists>p. s = p @ last (split_nl s) \<and> (p = [] \<or> last p = CHR 0x0A) \<and>
       CHR 0x0A \<notin> set (last (split_nl s))"
proof -
  define t where "t = rev (takeWhile (\<lambda>c. c \<noteq> CHR 0x0A) (rev s))"
  define p where "p = rev (dropWhile (\<lambda>c. c \<noteq> CHR 0x0A) (rev s))"
  have e: "takeWhile (\<lambda>c. c \<noteq> CHR 0x0A) (rev s) @ dropWhile (\<lambda>c. c \<noteq> CHR 0x0A) (rev s) = rev s"
    by (rule takeWhile_dropWhile_id)
  have "s = rev (rev s)" by simp
  also have "\<dots> = rev (takeWhile (\<lambda>c. c \<noteq> CHR 0x0A) (rev s) @ dropWhile (\<lambda>c. c \<noteq> CHR 0x0A) (rev s))"
    by (simp only: e)
  also have "\<dots> = p @ t"
    by (simp only: rev_append p_def t_def)
  finally have s: "s = p @ t" .
  have t: "CHR 0x0A \<notin> set t"
    unfolding t_def by (auto dest: set_takeWhileD)
  have p: "p = [] \<or> last p = CHR 0x0A"
  proof (cases "p = []")
    case False
    then have ne: "dropWhile (\<lambda>c. c \<noteq> CHR 0x0A) (rev s) \<noteq> []" by (simp add: p_def)
    then have "\<not> (hd (dropWhile (\<lambda>c. c \<noteq> CHR 0x0A) (rev s)) \<noteq> CHR 0x0A)"
      by (rule hd_dropWhile)
    then show ?thesis using ne by (simp add: p_def last_rev)
  qed simp
  have l: "last (split_nl s) = t"
  proof (cases "p = []")
    case True
    with s t show ?thesis by (simp add: split_nl_single)
  next
    case False
    with p have "p = butlast p @ [CHR 0x0A]"
      using append_butlast_last_id[of p] by simp
    with s have "s = butlast p @ CHR 0x0A # t" by simp
    then have "split_nl s = split_nl (butlast p) @ [t]"
      using split_nl_append[of "butlast p" t] split_nl_single[OF t] by simp
    then show ?thesis by simp
  qed
  from s t p show ?thesis unfolding l by (intro exI[of _ p]) simp
qed

lemma trailing_newlines:
  "\<exists>s' k. s = s' @ replicate k (CHR 0x0A) \<and> (s' = [] \<or> last s' \<noteq> CHR 0x0A)"
proof (induction s rule: rev_induct)
  case Nil
  show ?case by simp
next
  case (snoc c cs)
  show ?case
  proof (cases "c = CHR 0x0A")
    case True
    from snoc obtain s' k where "cs = s' @ replicate k (CHR 0x0A)" "s' = [] \<or> last s' \<noteq> CHR 0x0A"
      by blast
    then have "cs @ [c] = s' @ replicate (Suc k) (CHR 0x0A) \<and> (s' = [] \<or> last s' \<noteq> CHR 0x0A)"
      using True by (simp add: replicate_append_same)
    then show ?thesis by blast
  next
    case False
    then have "cs @ [c] = (cs @ [c]) @ replicate 0 (CHR 0x0A) \<and> last (cs @ [c]) \<noteq> CHR 0x0A"
      by simp
    then show ?thesis by blast
  qed
qed

lemma last_filter_keeps:
  "xs \<noteq> [] \<Longrightarrow> P (last xs) \<Longrightarrow> last (filter P xs) = last xs"
  by (cases xs rule: rev_cases) auto

lemma last_nonempty_line_shape:
  assumes "last_nonempty_line out = Some line"
  shows "\<exists>p k. out = p @ line @ replicate k (CHR 0x0A) \<and> (p = [] \<or> last p = CHR 0x0A) \<and>
               line \<noteq> [] \<and> CHR 0x0A \<notin> set line"
proof -
  obtain s' k where out: "out = s' @ replicate k (CHR 0x0A)" and s': "s' = [] \<or> last s' \<noteq> CHR 0x0A"
    using trailing_newlines by blast
  have f: "filter (\<lambda>l. l \<noteq> []) (split_nl out) = filter (\<lambda>l. l \<noteq> []) (split_nl s')"
    unfolding out split_nl_trailing by simp
  obtain p where p: "s' = p @ last (split_nl s')" "p = [] \<or> last p = CHR 0x0A"
    "CHR 0x0A \<notin> set (last (split_nl s'))"
    using last_line_decomposition by blast
  have ne: "s' \<noteq> []"
  proof
    assume "s' = []"
    with f assms show False by (simp add: last_nonempty_line_def)
  qed
  have lne: "last (split_nl s') \<noteq> []"
  proof
    assume e: "last (split_nl s') = []"
    with p(1) have "s' = p" by simp
    with ne p(2) s' show False by simp
  qed
  then have "last (filter (\<lambda>l. l \<noteq> []) (split_nl s')) = last (split_nl s')"
    by (simp add: last_filter_keeps split_nl_nonempty)
  moreover from assms f have "line = last (filter (\<lambda>l. l \<noteq> []) (split_nl s'))"
    by (auto simp: last_nonempty_line_def split: list.splits)
  ultimately have l: "line = last (split_nl s')" by simp
  have "out = p @ line @ replicate k (CHR 0x0A)"
    unfolding l out using p(1) by simp
  with p(2,3) lne l show ?thesis by (intro exI[of _ p] exI[of _ k]) simp
qed


lemma dropWhile_append_keep:
  "dropWhile P xs \<noteq> [] \<Longrightarrow> dropWhile P (xs @ ys) = dropWhile P xs @ ys"
  by (induction xs) auto

lemma last_dropWhile_keep:
  "dropWhile P xs \<noteq> [] \<Longrightarrow> last (dropWhile P xs) = last xs"
  by (induction xs) (auto split: if_splits)

lemma newline_isspace: "py_isspace (CHR 0x0A)"
  by (simp add: py_isspace_def)

lemma rstrip_shape:
  assumes "rstrip line \<noteq> []"
  shows "rstrip (p @ line @ replicate k (CHR 0x0A)) = p @ rstrip line"
proof -
  have "dropWhile py_isspace (replicate k (CHR 0x0A) @ rev line @ rev p)
          = dropWhile py_isspace (rev line @ rev p)"
    by (rule dropWhile_append2) (simp add: newline_isspace)
  also have "\<dots> = dropWhile py_isspace (rev line) @ rev p"
    using assms by (intro dropWhile_append_keep) (simp add: rstrip_def)
  finally show ?thesis by (simp add: rstrip_def)
qed

lemma set_rstrip: "set (rstrip s) \<subseteq> set s"
  unfolding rstrip_def using set_dropWhileD by fastforce

lemma set_lstrip: "set (lstrip s) \<subseteq> set s"
  unfolding lstrip_def using set_dropWhileD by fastforce

lemma stripped_last_line:
  fixes loads :: "string \<Rightarrow> 'a option"
  assumes out: "out = p @ line @ replicate k (CHR 0x0A)"
      and p: "p = [] \<or> last p = CHR 0x0A"
      and nl: "CHR 0x0A \<notin> set line"
      and v: "loads line = Some v"
      and l0: "loads [] = None"
      and lL: "\<forall>s v. loads s = Some v \<longrightarrow> loads (lstrip s) = Some v"
      and lR: "\<forall>s v. loads s = Some v \<longrightarrow> loads (rstrip s) = Some v"
  shows "strip out \<noteq> [] \<and> loads (last (split_nl (strip out))) = Some v"
proof -
  from v lR have r: "loads (rstrip line) = Some v" by blast
  with l0 have rne: "rstrip line \<noteq> []" by auto
  from r lL have lr: "loads (lstrip (rstrip line)) = Some v" by blast
  with l0 have lne: "lstrip (rstrip line) \<noteq> []" by auto
  have nlr: "CHR 0x0A \<notin> set (rstrip line)" using nl set_rstrip by blast
  then have nll: "CHR 0x0A \<notin> set (lstrip (rstrip line))" using set_lstrip by blast
  have s: "strip out = dropWhile py_isspace (p @ rstrip line)"
    unfolding out strip_def rstrip_shape[OF rne] by (simp add: lstrip_def)
  show ?thesis
  proof (cases "dropWhile py_isspace p = []")
    case True
    then have "\<And>x. x \<in> set p \<Longrightarrow> py_isspace x"
      by (simp add: dropWhile_eq_Nil_conv)
    then have "dropWhile py_isspace (p @ rstrip line) = dropWhile py_isspace (rstrip line)"
      by (rule dropWhile_append2)
    with s have "strip out = lstrip (rstrip line)" by (simp add: lstrip_def)
    with lr lne nll show ?thesis by (simp add: split_nl_single)
  next
    case False
    let ?q = "dropWhile py_isspace p"
    from False have pne: "p \<noteq> []" by auto
    with p have "last p = CHR 0x0A" by simp
    with False have "last ?q = CHR 0x0A" by (simp add: last_dropWhile_keep)
    with False have q: "?q = butlast ?q @ [CHR 0x0A]"
      using append_butlast_last_id[of ?q] by simp
    have "strip out = ?q @ rstrip line"
      using s dropWhile_append_keep[OF False] by simp
    then have "strip out = butlast ?q @ CHR 0x0A # rstrip line"
      using q by (metis append.assoc append_Cons append_Nil)
    then have "strip out \<noteq> [] \<and> split_nl (strip out) = split_nl (butlast ?q) @ [rstrip line]"
      using split_nl_append[of "butlast ?q" "rstrip line"] split_nl_single[OF nlr] by simp
    with r show ?thesis by simp
  qed
qed

section \<open>Basic facts\<close>

lemma send_webhook_notification_eq:
  "send_webhook_notification w callback_url execution_id status results =
     (log_event (HttpPost callback_url (webhook_payload w execution_id status results)
                   (authorization_header w)) w, Inr ())"
  by (simp add: send_webhook_notification_def send_webhook_try_def Let_def
           split: post_outcome.split)

lemma events_of_log_event:
  "events_of k (log_event e w) = events_of k w @ (if kind_of e = k then [e] else [])"
  by (simp add: events_of_def log_event_def)

lemma download_ok:
  assumes "py_subscript file_reference ''storagePath'' = Inr blob"
      and "blob_download w blob = Downloaded"
  shows "download_file_from_storage w file_reference =
           (log_event (DownloadBlob blob (tmp_name w)) (w\<lparr>fs := List.insert (tmp_name w) (fs w)\<rparr>),
            Inr (tmp_name w))"
  using assms by (simp add: download_file_from_storage_def Let_def)

lemma execute_script_returns:
  "\<exists>w' script_result. execute_script w script_path input_file_path execution_id = (w', Inr script_result)"
  unfolding execute_script_def by (auto split: prod.split sum.split pyexc.split)

section \<open>The Script Runner\<close>






section \<open>Effects of each step\<close>

lemma same_env_refl: "same_env w w"
  by (simp add: same_env_def)

lemma same_env_trans: "same_env w w1 \<Longrightarrow> same_env w1 w2 \<Longrightarrow> same_env w w2"
  unfolding same_env_def by (metis world.update_convs(1,2) world.surjective world.select_convs)

lemma same_env_log: "same_env w (log_event e w)"
  by (simp add: same_env_def log_event_def)

lemma same_env_fields:
  "same_env w w' \<Longrightarrow> now_iso w' = now_iso w \<and> webhook_secret w' = webhook_secret w"
  unfolding same_env_def by (metis world.select_convs world.surjective world.update_convs(1,2))

lemma download_effect:
  assumes "download_file_from_storage w fref = (w', r)"
  shows "same_env w w' \<and> (k \<noteq> KDownload \<longrightarrow> events_of k w' = events_of k w)"
  using assms
  by (auto simp: download_file_from_storage_def Let_def same_env_def log_event_def events_of_def
           split: sum.splits dl_outcome.splits if_splits)

lemma execute_script_effect:
  assumes "execute_script w sp inp eid = (w', r)"
  shows "same_env w w' \<and> (k \<noteq> KRun \<longrightarrow> events_of k w' = events_of k w)"
  using assms
  by (auto simp: execute_script_def execute_script_try_def Let_def same_env_def log_event_def events_of_def
           split: sum.splits run_outcome.splits if_splits pyval.splits pyexc.splits prod.splits)

lemma os_unlink_effect:
  assumes "os_unlink w p = (w', r)"
  shows "same_env w w' \<and> (k \<noteq> KUnlink \<longrightarrow> events_of k w' = events_of k w)"
  using assms
  by (auto simp: os_unlink_def same_env_def log_event_def events_of_def split: if_splits)

lemma cleanup_effect:
  "same_env w (cleanup w p) \<and> (k \<noteq> KUnlink \<longrightarrow> events_of k (cleanup w p) = events_of k w)"
  by (auto simp: cleanup_def cleanup_try_def os_unlink_def same_env_def log_event_def events_of_def path_exists_def
      split: prod.splits sum.splits if_splits)

lemma build_results_effect:
  assumes "build_results w sr eid = (w', r)"
  shows "same_env w w' \<and> (k \<noteq> KUpload \<longrightarrow> events_of k w' = events_of k w)"
  using assms
  by (auto simp: build_results_def upload_result_to_storage_def same_env_def log_event_def events_of_def
           split: sum.splits if_splits prod.splits)

lemma build_results_cases:
  assumes "build_results w sr eid = (w', Inr (res, st))"
  shows "\<exists>ok. dict_item sr ''success'' = Inr ok \<and>
           (if truthy ok
            then st = ''completed'' \<and> (\<exists>m files. parse_metrics w' sr = PDict m \<and> success_results (PDict m) files = Inr res)
            else st = ''failed'' \<and> res = failure_results sr)"
  using assms
  by (auto simp: build_results_def upload_result_to_storage_def success_results_def
           split: sum.splits if_splits prod.splits pyval.splits)

lemma run_job_raises:
  assumes "run_job w eid sp fref cb = (w', Inl e)"
  shows "same_env w w' \<and> events_of KPost w' = events_of KPost w"
proof -
  obtain w1 r1 where d: "download_file_from_storage w fref = (w1, r1)" by fastforce
  note de = download_effect[OF d, of KPost]
  show ?thesis
  proof (cases r1)
    case (Inl a)
    with assms d de show ?thesis by (simp add: run_job_def)
  next
    case (Inr inp)
    obtain w2 sr where x: "execute_script w1 sp inp eid = (w2, Inr sr)"
      using execute_script_returns by blast
    note xe = execute_script_effect[OF x, of KPost]
    obtain w3 r3 where b: "build_results w2 sr eid = (w3, r3)" by fastforce
    note be = build_results_effect[OF b, of KPost]
    show ?thesis
    proof (cases r3)
      case (Inl a)
      with assms d Inr x b de xe be show ?thesis
        by (auto simp: run_job_def intro: same_env_trans)
    next
      case (Inr p)
      with assms d \<open>r1 = Inr inp\<close> x b show ?thesis
        by (auto simp: run_job_def send_webhook_notification_eq split: prod.splits if_splits)
    qed
  qed
qed

lemma run_job_returns:
  assumes "run_job w eid sp fref cb = (w', Inr resp)"
  shows "\<exists>w1 inp w2 sr w3 res st.
           download_file_from_storage w fref = (w1, Inr inp) \<and>
           execute_script w1 sp inp eid = (w2, Inr sr) \<and>
           build_results w2 sr eid = (w3, Inr (res, st)) \<and>
           resp = \<lparr>status_code = 200,
                   body = PDict [(''success'', PBool True), (''executionId'', eid),
                                 (''status'', PStr st), (''results'', res)]\<rparr> \<and>
           events_of KPost w' = events_of KPost w @
             (if truthy cb
              then [HttpPost cb (webhook_payload w eid st res) (authorization_header w)]
              else [])"
proof -
  obtain w1 r1 where d: "download_file_from_storage w fref = (w1, r1)" by fastforce
  note de = download_effect[OF d, of KPost]
  from assms d obtain inp where r1: "r1 = Inr inp"
    by (cases r1) (auto simp: run_job_def)
  obtain w2 sr where x: "execute_script w1 sp inp eid = (w2, Inr sr)"
    using execute_script_returns by blast
  note xe = execute_script_effect[OF x, of KPost]
  obtain w3 r3 where b: "build_results w2 sr eid = (w3, r3)" by fastforce
  note be = build_results_effect[OF b, of KPost]
  from assms d r1 x b obtain res st where r3: "r3 = Inr (res, st)"
    by (cases r3) (auto simp: run_job_def)
  have env: "same_env w w3" using de xe be by (blast intro: same_env_trans)
  have pl: "webhook_payload w3 eid st res = webhook_payload w eid st res"
    using same_env_fields[OF env] by (simp add: webhook_payload_def)
  have au: "authorization_header w3 = authorization_header w"
    using same_env_fields[OF env] by (simp add: authorization_header_def)
  have ev: "events_of KPost w3 = events_of KPost w" using de xe be by simp
  from assms d r1 x b r3 pl au ev cleanup_effect[of _ inp KPost] show ?thesis
    by (auto simp: run_job_def send_webhook_notification_eq events_of_log_event split: if_splits)
qed


lemma parse_request_dict:
  "parse_request (PDict d) =
     Inr (dict_get d ''executionId'' PNone, dict_get d ''operationId'' PNone,
          dict_get d ''scriptPath'' PNone, dict_get d ''fileReference'' PNone,
          dict_get d ''callbackUrl'' PNone)"
  by (simp add: parse_request_def)

lemma parse_request_other:
  "\<forall>d. data \<noteq> PDict d \<Longrightarrow> \<exists>e. parse_request data = Inl e"
  by (cases data) (auto simp: parse_request_def)

lemma error_envelope_error_response: "error_envelope (error_response e)"
  by (simp add: error_envelope_def error_response_def py_field_def)

lemma failure_post_error_results:
  "failure_post cb (HttpPost cb (webhook_payload w eid ''failed'' (error_results e)) a)"
  by (simp add: failure_post_def webhook_payload_def py_field_def error_results_def)

lemma failure_post_failure_results:
  "failure_post cb (HttpPost cb (webhook_payload w eid ''failed'' (failure_results sr)) a)"
  by (simp add: failure_post_def webhook_payload_def py_field_def failure_results_def)

section \<open>Script outcomes in the pipeline\<close>

lemma execute_completed:
  assumes "os_path_join script_dir script_path = Inr full_script_path"
      and "path_exists w full_script_path"
      and "subprocess_run w full_script_path input_file_path eid = Completed returncode out err"
  shows "execute_script w script_path input_file_path (PStr eid) =
           (log_event (RunSubprocess full_script_path input_file_path eid) w
              \<lparr>fs := script_effect w full_script_path input_file_path eid (fs w)\<rparr>,
            Inr [(''success'', PBool (returncode = 0)), (''stdout'', PStr out),
                 (''stderr'', PStr err), (''returncode'', PInt returncode)])"
  using assms
  by (simp add: execute_script_def execute_script_try_def Let_def log_event_def
           del: os_path_join.simps)

lemma execute_timed_out:
  assumes "os_path_join script_dir script_path = Inr full_script_path"
      and "path_exists w full_script_path"
      and "subprocess_run w full_script_path input_file_path eid = TimedOut partial_out partial_err"
  shows "execute_script w script_path input_file_path (PStr eid) =
           (log_event (RunSubprocess full_script_path input_file_path eid) w
              \<lparr>fs := script_effect w full_script_path input_file_path eid (fs w)\<rparr>,
            Inr [(''success'', PBool False),
                 (''error'', PStr ''Script execution timed out after 5 minutes'')])"
  using assms
  by (simp add: execute_script_def execute_script_try_def Let_def log_event_def
           del: os_path_join.simps)

lemma build_results_failure:
  assumes "dict_item script_result ''success'' = Inr (PBool False)"
  shows "build_results w script_result execution_id = (w, Inr (failure_results script_result, ''failed''))"
  using assms by (simp add: build_results_def)

lemma run_job_script_failed:
  assumes "download_file_from_storage w file_reference = (w1, Inr input_file_path)"
      and "execute_script w1 script_path input_file_path execution_id = (w2, Inr script_result)"
      and "dict_item script_result ''success'' = Inr (PBool False)"
  shows "snd (run_job w execution_id script_path file_reference callback_url) =
           Inr \<lparr>status_code = 200,
                body = PDict [(''success'', PBool True),
                              (''executionId'', execution_id),
                              (''status'', PStr ''failed''),
                              (''results'', failure_results script_result)]\<rparr>"
  using assms
  by (simp add: run_job_def build_results_failure send_webhook_notification_eq)

lemma process_of_run_job:
  assumes "snd (run_job w (dict_get d ''executionId'' PNone) (dict_get d ''scriptPath'' PNone)
                  (dict_get d ''fileReference'' PNone) (dict_get d ''callbackUrl'' PNone)) = Inr resp"
  shows "snd (process_finance_operation w (Inr (PDict d))) = Inr resp"
  using assms
  by (cases "run_job w (dict_get d ''executionId'' PNone) (dict_get d ''scriptPath'' PNone)
                (dict_get d ''fileReference'' PNone) (dict_get d ''callbackUrl'' PNone)")
     (simp add: process_finance_operation_def parse_request_dict)

text \<open>
  C8. Let the request name an existing script, carry a string execution id and a
  file reference whose blob downloads, and let the child process run to completion
  with return code \<open>returncode\<close>, standard output \<open>out\<close> and standard error
  \<open>err\<close>. Then \<open>execute_script\<close> returns an outcome whose \<open>success\<close> is true
  exactly when the return code is 0, with \<open>out\<close>, \<open>err\<close> and the return code
  recorded. A non-zero return code does not abort the job: the endpoint answers 200
  with status "failed" and results whose \<open>success\<close> is false and whose \<open>data\<close>
  carry \<open>out\<close>, \<open>err\<close> and the return code.
\<close>

theorem exit_code_decides_outcome:
  assumes "os_path_join script_dir (dict_get d ''scriptPath'' PNone) = Inr full_script_path"
      and "path_exists w full_script_path"
      and "dict_get d ''executionId'' PNone = PStr eid"
      and "py_subscript (dict_get d ''fileReference'' PNone) ''storagePath'' = Inr blob"
      and "blob_download w blob = Downloaded"
      and "subprocess_run w full_script_path (tmp_name w) eid = Completed returncode out err"
  shows "\<exists>w1 w2.
           download_file_from_storage w (dict_get d ''fileReference'' PNone) = (w1, Inr (tmp_name w)) \<and>
           execute_script w1 (dict_get d ''scriptPath'' PNone) (tmp_name w) (PStr eid) =
             (w2, Inr [(''success'', PBool (returncode = 0)),
                       (''stdout'', PStr out),
                       (''stderr'', PStr err),
                       (''returncode'', PInt returncode)]) \<and>
           (returncode \<noteq> 0 \<longrightarrow>
              snd (process_finance_operation w (Inr (PDict d))) =
                Inr \<lparr>status_code = 200,
                     body = PDict [(''success'', PBool True),
                                   (''executionId'', PStr eid),
                                   (''status'', PStr ''failed''),
                                   (''results'',
                                    PDict [(''success'', PBool False),
                                           (''message'', PStr ''Processing failed''),
                                           (''errors'', PList [PStr ''Unknown error'']),
                                           (''data'', PDict [(''stdout'', PStr out),
                                                            (''stderr'', PStr err),
                                                            (''returncode'', PInt returncode)])])]\<rparr>)"
proof -
  let ?w1 = "log_event (DownloadBlob blob (tmp_name w)) (w\<lparr>fs := List.insert (tmp_name w) (fs w)\<rparr>)"
  let ?sr = "[(''success'', PBool (returncode = 0)), (''stdout'', PStr out),
              (''stderr'', PStr err), (''returncode'', PInt returncode)]"
  have dl: "download_file_from_storage w (dict_get d ''fileReference'' PNone) = (?w1, Inr (tmp_name w))"
    using assms(4,5) by (rule download_ok)
  have ex1: "path_exists ?w1 full_script_path"
    using assms(2) by (simp add: path_exists_def log_event_def)
  have run1: "subprocess_run ?w1 full_script_path (tmp_name w) eid = Completed returncode out err"
    using assms(6) by (simp add: log_event_def)
  note ex = execute_completed[OF assms(1) ex1 run1]
  have "snd (process_finance_operation w (Inr (PDict d))) =
          Inr \<lparr>status_code = 200,
               body = PDict [(''success'', PBool True), (''executionId'', PStr eid),
                             (''status'', PStr ''failed''), (''results'', failure_results ?sr)]\<rparr>"
    if nz: "returncode \<noteq> 0"
  proof -
    have s: "dict_item ?sr ''success'' = Inr (PBool False)"
      using nz by (simp add: dict_item_def)
    from run_job_script_failed[OF dl ex s, of "dict_get d ''callbackUrl'' PNone"] assms(3)
    show ?thesis by (intro process_of_run_job) simp
  qed
  then show ?thesis using dl ex by (simp add: failure_results_def dict_get_def)
qed

theorem exit_code_decides_outcome_witness:
  "subprocess_run failing_script_world ''/app/scripts/stripe_balance_payout.py'' ''/tmp/tmpk3v9x1.csv'' ''exec-1''
     = Completed 1 [] ''boom'' \<and>
   snd (process_finance_operation failing_script_world (Inr (PDict sample_request))) =
     Inr \<lparr>status_code = 200,
          body = PDict [(''success'', PBool True),
                        (''executionId'', PStr ''exec-1''),
                        (''status'', PStr ''failed''),
                        (''results'',
                         PDict [(''success'', PBool False),
                                (''message'', PStr ''Processing failed''),
                                (''errors'', PList [PStr ''Unknown error'']),
                                (''data'', PDict [(''stdout'', PStr []),
                                                 (''stderr'', PStr ''boom''),
                                                 (''returncode'', PInt 1)])])]\<rparr>"
proof -
  have a1: "os_path_join script_dir (dict_get sample_request ''scriptPath'' PNone)
              = Inr ''/app/scripts/stripe_balance_payout.py''"
    by (simp add: sample_request_def dict_get_def script_dir_def)
  have a2: "path_exists failing_script_world ''/app/scripts/stripe_balance_payout.py''"
    by (simp add: path_exists_def failing_script_world_def sample_world_def)
  have a3: "dict_get sample_request ''executionId'' PNone = PStr ''exec-1''"
    by (simp add: sample_request_def dict_get_def)
  have a4: "py_subscript (dict_get sample_request ''fileReference'' PNone) ''storagePath''
              = Inr (PStr ''finance-operations/uploads/in.csv'')"
    by (simp add: sample_request_def dict_get_def dict_item_def)
  have a5: "blob_download failing_script_world (PStr ''finance-operations/uploads/in.csv'') = Downloaded"
    by (simp add: failing_script_world_def sample_world_def)
  have a6: "subprocess_run failing_script_world ''/app/scripts/stripe_balance_payout.py''
              (tmp_name failing_script_world) ''exec-1'' = Completed 1 [] ''boom''"
    by (simp add: failing_script_world_def sample_world_def)
  have t: "tmp_name failing_script_world = ''/tmp/tmpk3v9x1.csv''"
    by (simp add: failing_script_world_def sample_world_def)
  from exit_code_decides_outcome [OF a1 a2 a3 a4 a5 a6] a6 t show ?thesis by auto
qed

lemma sample_request_facts:
  "os_path_join script_dir (dict_get sample_request ''scriptPath'' PNone)
              = Inr ''/app/scripts/stripe_balance_payout.py''"
  "dict_get sample_request ''executionId'' PNone = PStr ''exec-1''"
  "py_subscript (dict_get sample_request ''fileReference'' PNone) ''storagePath''
              = Inr (PStr ''finance-operations/uploads/in.csv'')"
  by (simp_all add: sample_request_def dict_get_def script_dir_def dict_item_def)

text \<open>
  C3, as the claim states it, fails. In the sample run below the child is killed at the
  timeout after it has printed "progress": the failure reason reported is
  "Script execution timed out after 5 minutes", not "timeout", and the standard output
  in the result's data is empty, not "progress".
\<close>

theorem timeout_reason_counterexample:
  "subprocess_run timeout_world ''/app/scripts/stripe_balance_payout.py'' ''/tmp/tmpk3v9x1.csv'' ''exec-1''
     = TimedOut (Some ''progress'') (Some ''INFO: started'') \<and>
   job_errors (projr (snd (process_finance_operation timeout_world (Inr (PDict sample_request)))))
     = Some (PList [PStr ''Script execution timed out after 5 minutes'']) \<and>
   job_errors (projr (snd (process_finance_operation timeout_world (Inr (PDict sample_request)))))
     \<noteq> Some (PList [PStr ''timeout'']) \<and>
   job_data (projr (snd (process_finance_operation timeout_world (Inr (PDict sample_request))))) ''stdout''
     = Some (PStr []) \<and>
   job_data (projr (snd (process_finance_operation timeout_world (Inr (PDict sample_request))))) ''stdout''
     \<noteq> Some (PStr ''progress'')"
proof -
  have a2: "path_exists timeout_world ''/app/scripts/stripe_balance_payout.py''"
    by (simp add: path_exists_def timeout_world_def sample_world_def)
  have a5: "blob_download timeout_world (PStr ''finance-operations/uploads/in.csv'') = Downloaded"
    by (simp add: timeout_world_def sample_world_def)
  have a6: "subprocess_run timeout_world ''/app/scripts/stripe_balance_payout.py''
              (tmp_name timeout_world) ''exec-1'' = TimedOut (Some ''progress'') (Some ''INFO: started'')"
    by (simp add: timeout_world_def sample_world_def)
  have t: "tmp_name timeout_world = ''/tmp/tmpk3v9x1.csv''"
    by (simp add: timeout_world_def sample_world_def)
  let ?w1 = "log_event (DownloadBlob (PStr ''finance-operations/uploads/in.csv'') (tmp_name timeout_world))
               (timeout_world\<lparr>fs := List.insert (tmp_name timeout_world) (fs timeout_world)\<rparr>)"
  have dl: "download_file_from_storage timeout_world (dict_get sample_request ''fileReference'' PNone)
              = (?w1, Inr (tmp_name timeout_world))"
    using sample_request_facts(3) a5 by (rule download_ok)
  have ex1: "path_exists ?w1 ''/app/scripts/stripe_balance_payout.py''"
    using a2 by (simp add: path_exists_def log_event_def)
  have run1: "subprocess_run ?w1 ''/app/scripts/stripe_balance_payout.py'' (tmp_name timeout_world) ''exec-1''
                = TimedOut (Some ''progress'') (Some ''INFO: started'')"
    using a6 by (simp add: log_event_def)
  note ex = execute_timed_out[OF sample_request_facts(1) ex1 run1]
  have s: "dict_item [(''success'', PBool False),
              (''error'', PStr ''Script execution timed out after 5 minutes'')] ''success'' = Inr (PBool False)"
    by (simp add: dict_item_def)
  from run_job_script_failed[OF dl ex s, of "dict_get sample_request ''callbackUrl'' PNone"] sample_request_facts(2)
  have "snd (process_finance_operation timeout_world (Inr (PDict sample_request))) =
          Inr \<lparr>status_code = 200,
               body = PDict [(''success'', PBool True), (''executionId'', PStr ''exec-1''),
                             (''status'', PStr ''failed''),
                             (''results'', failure_results [(''success'', PBool False),
              (''error'', PStr ''Script execution timed out after 5 minutes'')])]\<rparr>"
    by (intro process_of_run_job) simp
  with a6 t show ?thesis
    by (simp add: job_errors_def job_data_def py_field_def failure_results_def dict_get_def)
qed

text \<open>
  C3, amended. When the child process exceeds the timeout, \<open>execute_script\<close> returns
  \<open>{success: False, error: "Script execution timed out after 5 minutes"}\<close>, whatever
  output was captured before the kill, and the endpoint answers 200 with status
  "failed": the results have \<open>success\<close> false, that message as their only error,
  and data with empty \<open>stdout\<close> and \<open>stderr\<close> and \<open>returncode\<close> None.
\<close>

theorem timeout_outcome:
  assumes "os_path_join script_dir (dict_get d ''scriptPath'' PNone) = Inr full_script_path"
      and "path_exists w full_script_path"
      and "dict_get d ''executionId'' PNone = PStr eid"
      and "py_subscript (dict_get d ''fileReference'' PNone) ''storagePath'' = Inr blob"
      and "blob_download w blob = Downloaded"
      and "subprocess_run w full_script_path (tmp_name w) eid = TimedOut partial_out partial_err"
  shows "\<exists>w1 w2.
           download_file_from_storage w (dict_get d ''fileReference'' PNone) = (w1, Inr (tmp_name w)) \<and>
           execute_script w1 (dict_get d ''scriptPath'' PNone) (tmp_name w) (PStr eid) =
             (w2, Inr [(''success'', PBool False),
                       (''error'', PStr ''Script execution timed out after 5 minutes'')]) \<and>
           snd (process_finance_operation w (Inr (PDict d))) =
             Inr \<lparr>status_code = 200,
                  body = PDict [(''success'', PBool True),
                                (''executionId'', PStr eid),
                                (''status'', PStr ''failed''),
                                (''results'',
                                 PDict [(''success'', PBool False),
                                        (''message'', PStr ''Processing failed''),
                                        (''errors'', PList [PStr ''Script execution timed out after 5 minutes'']),
                                        (''data'', PDict [(''stdout'', PStr []),
                                                         (''stderr'', PStr []),
                                                         (''returncode'', PNone)])])]\<rparr>"
proof -
  let ?w1 = "log_event (DownloadBlob blob (tmp_name w)) (w\<lparr>fs := List.insert (tmp_name w) (fs w)\<rparr>)"
  let ?sr = "[(''success'', PBool False),
              (''error'', PStr ''Script execution timed out after 5 minutes'')]"
  have dl: "download_file_from_storage w (dict_get d ''fileReference'' PNone) = (?w1, Inr (tmp_name w))"
    using assms(4,5) by (rule download_ok)
  have ex1: "path_exists ?w1 full_script_path"
    using assms(2) by (simp add: path_exists_def log_event_def)
  have run1: "subprocess_run ?w1 full_script_path (tmp_name w) eid = TimedOut partial_out partial_err"
    using assms(6) by (simp add: log_event_def)
  note ex = execute_timed_out[OF assms(1) ex1 run1]
  have s: "dict_item ?sr ''success'' = Inr (PBool False)"
    by (simp add: dict_item_def)
  from run_job_script_failed[OF dl ex s, of "dict_get d ''callbackUrl'' PNone"] assms(3)
  have "snd (process_finance_operation w (Inr (PDict d))) =
          Inr \<lparr>status_code = 200,
               body = PDict [(''success'', PBool True), (''executionId'', PStr eid),
                             (''status'', PStr ''failed''), (''results'', failure_results ?sr)]\<rparr>"
    by (intro process_of_run_job) simp
  then show ?thesis using dl ex by (simp add: failure_results_def dict_get_def)
qed

theorem timeout_outcome_witness:
  "subprocess_run timeout_world ''/app/scripts/stripe_balance_payout.py'' ''/tmp/tmpk3v9x1.csv'' ''exec-1''
     = TimedOut (Some ''progress'') (Some ''INFO: started'') \<and>
   snd (process_finance_operation timeout_world (Inr (PDict sample_request))) =
     Inr \<lparr>status_code = 200,
          body = PDict [(''success'', PBool True),
                        (''executionId'', PStr ''exec-1''),
                        (''status'', PStr ''failed''),
                        (''results'',
                         PDict [(''success'', PBool False),
                                (''message'', PStr ''Processing failed''),
                                (''errors'', PList [PStr ''Script execution timed out after 5 minutes'']),
                                (''data'', PDict [(''stdout'', PStr []),
                                                 (''stderr'', PStr []),
                                                 (''returncode'', PNone)])])]\<rparr>"
proof -
  have a2: "path_exists timeout_world ''/app/scripts/stripe_balance_payout.py''"
    by (simp add: path_exists_def timeout_world_def sample_world_def)
  have a5: "blob_download timeout_world (PStr ''finance-operations/uploads/in.csv'') = Downloaded"
    by (simp add: timeout_world_def sample_world_def)
  have a6: "subprocess_run timeout_world ''/app/scripts/stripe_balance_payout.py''
              (tmp_name timeout_world) ''exec-1'' = TimedOut (Some ''progress'') (Some ''INFO: started'')"
    by (simp add: timeout_world_def sample_world_def)
  have t: "tmp_name timeout_world = ''/tmp/tmpk3v9x1.csv''"
    by (simp add: timeout_world_def sample_world_def)
  from timeout_outcome [OF sample_request_facts(1) a2 sample_request_facts(2,3) a5 a6] a6 t show ?thesis by auto
qed

section \<open>The success result\<close>

text \<open>The definitions that a sample run unfolds.\<close>

lemmas pipeline_defs =
  process_finance_operation_def parse_request_def run_job_def download_file_from_storage_def
  execute_script_def execute_script_try_def build_results_def upload_result_to_storage_def
  parse_metrics_def parse_metrics_try_def success_results_def failure_results_def
  send_webhook_notification_def send_webhook_try_def webhook_payload_def authorization_header_def
  cleanup_def cleanup_try_def os_unlink_def error_response_def error_results_def
  dict_get_def dict_item_def last_item_def path_exists_def log_event_def
  script_dir_def result_file_path_def strip_def lstrip_def rstrip_def py_isspace_def quoted_def

lemma quiet_world_response:
  "snd (process_finance_operation quiet_world (Inr (PDict sample_request))) =
     Inr \<lparr>status_code = 200,
          body = PDict [(''success'', PBool True),
                        (''executionId'', PStr ''exec-1''),
                        (''status'', PStr ''completed''),
                        (''results'',
                         PDict [(''success'', PBool True),
                                (''message'', PStr ''Processing completed successfully''),
                                (''recordsProcessed'', PInt 0),
                                (''recordsSuccessful'', PInt 0),
                                (''recordsFailed'', PInt 0),
                                (''totalAmount'', PNone),
                                (''currency'', PNone),
                                (''mocked'', PBool False),
                                (''note'', PNone),
                                (''data'', PDict []),
                                (''outputFiles'', PList [])])]\<rparr>"
  by (simp add: pipeline_defs quiet_world_def sample_world_def sample_request_def Let_def)

text \<open>
  C10. Whenever the endpoint answers with status "completed", the results hold
  \<open>success: True\<close>, the parsed metrics \<open>m\<close> under \<open>data\<close>, and the keys
  \<open>recordsProcessed\<close>, \<open>recordsSuccessful\<close>, \<open>recordsFailed\<close> and \<open>mocked\<close>;
  each holds the value of \<open>m.get(key, default)\<close>, that is the metric when \<open>m\<close> has
  the key and otherwise 0 for the three counters and False for \<open>mocked\<close>. The sample
  run has empty metrics and shows the four defaults.
\<close>

theorem success_result_has_counters:
  assumes "process_finance_operation w request_json = (w', Inr resp)"
      and "py_field (body resp) ''status'' = Some (PStr ''completed'')"
  shows "\<exists>results m.
           py_field (body resp) ''results'' = Some results \<and>
           py_field results ''success'' = Some (PBool True) \<and>
           py_field results ''data'' = Some (PDict m) \<and>
           py_field results ''recordsProcessed'' = Some (dict_get m ''recordsProcessed'' (PInt 0)) \<and>
           py_field results ''recordsSuccessful'' = Some (dict_get m ''recordsSuccessful'' (PInt 0)) \<and>
           py_field results ''recordsFailed'' = Some (dict_get m ''recordsFailed'' (PInt 0)) \<and>
           py_field results ''mocked'' = Some (dict_get m ''mocked'' (PBool False))"
proof -
  have ne: "py_field (body (error_response e)) ''status'' = None" for e
    by (simp add: error_response_def py_field_def)
  from assms ne obtain d where rj:
    "run_job w (dict_get d ''executionId'' PNone) (dict_get d ''scriptPath'' PNone)
       (dict_get d ''fileReference'' PNone) (dict_get d ''callbackUrl'' PNone) = (w', Inr resp)"
    by (cases request_json; cases "projr request_json")
       (auto simp: process_finance_operation_def parse_request_def send_webhook_notification_eq
             split: sum.splits prod.splits)
  from run_job_returns[OF rj] obtain w2 sr w3 res st where
    b: "build_results w2 sr (dict_get d ''executionId'' PNone) = (w3, Inr (res, st))" and
    resp: "resp = \<lparr>status_code = 200,
                   body = PDict [(''success'', PBool True), (''executionId'', dict_get d ''executionId'' PNone),
                                 (''status'', PStr st), (''results'', res)]\<rparr>"
    by blast
  from resp assms(2) have st: "st = ''completed''" by (simp add: py_field_def)
  from build_results_cases[OF b] st obtain m files where "success_results (PDict m) files = Inr res"
    by (auto split: if_splits)
  then have "res = PDict [(''success'', PBool True),
                          (''message'', PStr (''Processing completed successfully'' @
                 (if truthy (dict_get m ''mocked'' PNone)
                  then '' (MOCKED - No real Stripe API calls made)'' else []))),
                          (''recordsProcessed'', dict_get m ''recordsProcessed'' (PInt 0)),
                          (''recordsSuccessful'', dict_get m ''recordsSuccessful'' (PInt 0)),
                          (''recordsFailed'', dict_get m ''recordsFailed'' (PInt 0)),
                          (''totalAmount'', dict_get m ''totalAmount'' PNone),
                          (''currency'', dict_get m ''currency'' PNone),
                          (''mocked'', dict_get m ''mocked'' (PBool False)),
                          (''note'', dict_get m ''note'' PNone),
                          (''data'', PDict m),
                          (''outputFiles'', PList files)]"
    by (simp add: success_results_def Let_def)
  with resp show ?thesis by (simp add: py_field_def)
qed

theorem success_result_has_counters_witness:
  "\<exists>w' resp results.
     process_finance_operation quiet_world (Inr (PDict sample_request)) = (w', Inr resp) \<and>
     py_field (body resp) ''status'' = Some (PStr ''completed'') \<and>
     py_field (body resp) ''results'' = Some results \<and>
     py_field results ''data'' = Some (PDict []) \<and>
     py_field results ''recordsProcessed'' = Some (PInt 0) \<and>
     py_field results ''recordsSuccessful'' = Some (PInt 0) \<and>
     py_field results ''recordsFailed'' = Some (PInt 0) \<and>
     py_field results ''mocked'' = Some (PBool False)"
proof -
  obtain w' r where p: "process_finance_operation quiet_world (Inr (PDict sample_request)) = (w', r)"
    by fastforce
  then have "r = snd (process_finance_operation quiet_world (Inr (PDict sample_request)))" by simp
  then obtain resp where r: "r = Inr resp" and
    st: "py_field (body resp) ''status'' = Some (PStr ''completed'')" and
    dt: "\<And>results. py_field (body resp) ''results'' = Some results \<Longrightarrow>
           py_field results ''data'' = Some (PDict [])"
    unfolding quiet_world_response by (simp add: py_field_def)
  from success_result_has_counters [OF p[unfolded r] st] obtain results m where
    res: "py_field (body resp) ''results'' = Some results" and
    m: "py_field results ''data'' = Some (PDict m)" and
    c: "py_field results ''recordsProcessed'' = Some (dict_get m ''recordsProcessed'' (PInt 0))"
       "py_field results ''recordsSuccessful'' = Some (dict_get m ''recordsSuccessful'' (PInt 0))"
       "py_field results ''recordsFailed'' = Some (dict_get m ''recordsFailed'' (PInt 0))"
       "py_field results ''mocked'' = Some (dict_get m ''mocked'' (PBool False))"
    by (elim exE conjE) (rule that, assumption+)
  from dt[OF res] m have "m = []" by simp
  with c have "py_field results ''recordsProcessed'' = Some (PInt 0)"
       "py_field results ''recordsSuccessful'' = Some (PInt 0)"
       "py_field results ''recordsFailed'' = Some (PInt 0)"
       "py_field results ''mocked'' = Some (PBool False)"
    by (simp_all add: dict_get_def)
  with p r st res dt[OF res] show ?thesis
    by (intro exI[of _ w'] exI[of _ resp] exI[of _ results]) simp
qed

section \<open>Requests with a missing field\<close>

lemma download_events:
  assumes "py_subscript file_reference ''storagePath'' = Inr blob"
      and "download_file_from_storage w file_reference = (w1, r)"
  shows "events_of KDownload w1 = events_of KDownload w @ [DownloadBlob blob (tmp_name w)]"
  using assms
  by (auto simp: download_file_from_storage_def Let_def events_of_def log_event_def
           split: dl_outcome.splits if_splits)

lemma download_none:
  "download_file_from_storage w PNone =
     (w, Inl (TypeError (quoted ''NoneType'' @ '' object is not subscriptable'')))"
  by (simp add: download_file_from_storage_def)

lemma execute_script_none:
  "execute_script w PNone input_file_path execution_id =
     (w, Inr [(''success'', PBool False),
              (''error'', PStr (''join() argument must be str, bytes, or os.PathLike object, not '' @ quoted ''NoneType''))])"
  by (simp add: execute_script_def execute_script_try_def)

lemma run_job_events:
  assumes "run_job w eid sp fref cb = (w', r)"
      and "download_file_from_storage w fref = (w1, r1)"
  shows "events_of KDownload w' = events_of KDownload w1"
proof (cases r1)
  case (Inl e)
  with assms show ?thesis by (simp add: run_job_def)
next
  case (Inr inp)
  obtain w2 sr where x: "execute_script w1 sp inp eid = (w2, Inr sr)"
    using execute_script_returns by blast
  note xe = execute_script_effect[OF x, of KDownload]
  obtain w3 r3 where b: "build_results w2 sr eid = (w3, r3)" by fastforce
  note be = build_results_effect[OF b, of KDownload]
  from assms Inr x b xe be cleanup_effect[of _ inp KDownload] show ?thesis
    by (auto simp: run_job_def send_webhook_notification_eq events_of_log_event
             split: sum.splits prod.splits if_splits)
qed

lemma run_job_no_script:
  assumes "run_job w eid PNone fref cb = (w', r)"
  shows "events_of KRun w' = events_of KRun w \<and>
         (\<forall>resp. r = Inr resp \<longrightarrow> failed_job_result resp)"
proof -
  obtain w1 r1 where d: "download_file_from_storage w fref = (w1, r1)" by fastforce
  note de = download_effect[OF d, of KRun]
  show ?thesis
  proof (cases r1)
    case (Inl e)
    with assms d de show ?thesis by (auto simp: run_job_def)
  next
    case (Inr inp)
    have b: "build_results w1 [(''success'', PBool False),
              (''error'', PStr (''join() argument must be str, bytes, or os.PathLike object, not '' @ quoted ''NoneType''))] eid
             = (w1, Inr (failure_results [(''success'', PBool False),
              (''error'', PStr (''join() argument must be str, bytes, or os.PathLike object, not '' @ quoted ''NoneType''))], ''failed''))"
      by (rule build_results_failure) (simp add: dict_item_def)
    from assms d Inr de b cleanup_effect[of _ inp KRun] show ?thesis
      by (auto simp: run_job_def execute_script_none send_webhook_notification_eq events_of_log_event
                     failed_job_result_def py_field_def failure_results_def
               split: if_splits)
  qed
qed

lemma process_failure_post:
  assumes rj: "run_job w eid sp fref cb = (w1, r)"
      and p: "process_finance_operation w (Inr (PDict d)) = (w', Inr resp)"
      and f: "eid = dict_get d ''executionId'' PNone" "sp = dict_get d ''scriptPath'' PNone"
             "fref = dict_get d ''fileReference'' PNone" "cb = dict_get d ''callbackUrl'' PNone"
      and nc: "py_field (body resp) ''status'' \<noteq> Some (PStr ''completed'')" and cb: "truthy cb"
  shows "\<exists>post. events_of KPost w' = events_of KPost w @ [post] \<and> failure_post cb post"
proof (cases r)
  case (Inl e)
  note rr = run_job_raises[OF rj[unfolded Inl]]
  from p rj Inl f have "w' = log_event (HttpPost cb (webhook_payload w1 eid ''failed'' (error_results e))
                               (authorization_header w1)) w1"
    by (simp add: process_finance_operation_def parse_request_dict send_webhook_notification_eq)
  with rr show ?thesis
    by (simp add: events_of_log_event failure_post_error_results)
next
  case (Inr resp')
  from p rj Inr f have e: "w' = w1" "resp' = resp"
    by (simp_all add: process_finance_operation_def parse_request_dict)
  from run_job_returns[OF rj[unfolded Inr]] obtain w2 sr w3 res st where
    b: "build_results w2 sr eid = (w3, Inr (res, st))" and
    resp: "resp' = \<lparr>status_code = 200,
                   body = PDict [(''success'', PBool True), (''executionId'', eid),
                                 (''status'', PStr st), (''results'', res)]\<rparr>" and
    ev: "events_of KPost w1 = events_of KPost w @
             (if truthy cb
              then [HttpPost cb (webhook_payload w eid st res) (authorization_header w)]
              else [])"
    by blast
  from nc e resp have "st \<noteq> ''completed''" by (auto simp: py_field_def)
  with build_results_cases[OF b] have st: "st = ''failed''" and "res = failure_results sr"
    by (auto split: if_splits)
  with ev cb e show ?thesis by (simp add: failure_post_failure_results)
qed

lemma process_outcome:
  "process_finance_operation w (Inr (PDict d)) =
     (case run_job w (dict_get d ''executionId'' PNone) (dict_get d ''scriptPath'' PNone)
             (dict_get d ''fileReference'' PNone) (dict_get d ''callbackUrl'' PNone) of
        (w1, Inr resp) \<Rightarrow> (w1, Inr resp)
      | (w1, Inl e) \<Rightarrow>
          (log_event (HttpPost (dict_get d ''callbackUrl'' PNone)
                        (webhook_payload w1 (dict_get d ''executionId'' PNone) ''failed'' (error_results e))
                        (authorization_header w1)) w1,
           Inr (error_response e)))"
  by (simp add: process_finance_operation_def parse_request_dict send_webhook_notification_eq
           split: prod.splits sum.splits)

lemma process_returns:
  "\<exists>w' resp. process_finance_operation w request_json = (w', Inr resp)"
proof (cases request_json)
  case (Inl e)
  then show ?thesis by (simp add: process_finance_operation_def)
next
  case (Inr data)
  show ?thesis
  proof (cases "\<exists>d. data = PDict d")
    case False
    then obtain e where "parse_request data = Inl e" using parse_request_other by blast
    with Inr show ?thesis by (simp add: process_finance_operation_def)
  next
    case True
    then obtain d where "data = PDict d" by blast
    with Inr show ?thesis
      by (simp add: process_outcome split: prod.split sum.split)
  qed
qed

lemma download_fails:
  assumes "py_subscript file_reference ''storagePath'' = Inr blob"
      and "blob_download w blob = DownloadFailed msg kept"
  shows "\<exists>w1. download_file_from_storage w file_reference = (w1, Inl (ExternalError msg))"
  using assms by (simp add: download_file_from_storage_def Let_def)

lemma process_fetch_error:
  assumes "py_subscript (dict_get d ''fileReference'' PNone) ''storagePath'' = Inr blob"
      and "blob_download w blob = DownloadFailed msg kept"
  shows "\<exists>w'. process_finance_operation w (Inr (PDict d)) =
                 (w', Inr (error_response (ExternalError msg))) \<and>
               events_of KPost w' = events_of KPost w @
                 [HttpPost (dict_get d ''callbackUrl'' PNone)
                    (webhook_payload w (dict_get d ''executionId'' PNone) ''failed''
                       (error_results (ExternalError msg)))
                    (authorization_header w)]"
proof -
  let ?eid = "dict_get d ''executionId'' PNone"
  let ?sp = "dict_get d ''scriptPath'' PNone"
  let ?fref = "dict_get d ''fileReference'' PNone"
  let ?cb = "dict_get d ''callbackUrl'' PNone"
  from download_fails[OF assms] obtain w1 where
    dl: "download_file_from_storage w ?fref = (w1, Inl (ExternalError msg))" by blast
  then have rj: "run_job w ?eid ?sp ?fref ?cb = (w1, Inl (ExternalError msg))"
    by (simp add: run_job_def)
  from run_job_raises[OF rj] have env: "same_env w w1" and ev: "events_of KPost w1 = events_of KPost w"
    by simp_all
  have pl: "webhook_payload w1 ?eid ''failed'' (error_results (ExternalError msg))
              = webhook_payload w ?eid ''failed'' (error_results (ExternalError msg))"
    using same_env_fields[OF env] by (simp add: webhook_payload_def)
  have au: "authorization_header w1 = authorization_header w"
    using same_env_fields[OF env] by (simp add: authorization_header_def)
  from rj pl au ev show ?thesis
    by (simp add: process_outcome events_of_log_event)
qed

lemma process_script_failed:
  assumes dl: "download_file_from_storage w (dict_get d ''fileReference'' PNone) = (w1, Inr input_file_path)"
      and ex: "execute_script w1 (dict_get d ''scriptPath'' PNone) input_file_path
                 (dict_get d ''executionId'' PNone) = (w2, Inr script_result)"
      and s: "dict_item script_result ''success'' = Inr (PBool False)"
  shows "\<exists>w'. process_finance_operation w (Inr (PDict d)) =
                 (w', Inr \<lparr>status_code = 200,
                          body = PDict [(''success'', PBool True),
                                        (''executionId'', dict_get d ''executionId'' PNone),
                                        (''status'', PStr ''failed''),
                                        (''results'', failure_results script_result)]\<rparr>) \<and>
               events_of KPost w' = events_of KPost w @
                 (if truthy (dict_get d ''callbackUrl'' PNone)
                  then [HttpPost (dict_get d ''callbackUrl'' PNone)
                          (webhook_payload w (dict_get d ''executionId'' PNone) ''failed''
                             (failure_results script_result))
                          (authorization_header w)]
                  else [])"
proof -
  let ?eid = "dict_get d ''executionId'' PNone"
  let ?sp = "dict_get d ''scriptPath'' PNone"
  let ?fref = "dict_get d ''fileReference'' PNone"
  let ?cb = "dict_get d ''callbackUrl'' PNone"
  obtain w' r where rj: "run_job w ?eid ?sp ?fref ?cb = (w', r)" by fastforce
  from run_job_script_failed[OF dl ex s, of ?cb] rj
  have r: "r = Inr \<lparr>status_code = 200,
                body = PDict [(''success'', PBool True), (''executionId'', ?eid),
                              (''status'', PStr ''failed''),
                              (''results'', failure_results script_result)]\<rparr>"
    by simp
  from run_job_returns[OF rj[unfolded r]] obtain res st where
    "\<lparr>status_code = 200,
                body = PDict [(''success'', PBool True), (''executionId'', ?eid),
                              (''status'', PStr ''failed''),
                              (''results'', failure_results script_result)]\<rparr>
      = \<lparr>status_code = 200,
                   body = PDict [(''success'', PBool True), (''executionId'', ?eid),
                                 (''status'', PStr st), (''results'', res)]\<rparr>"
    and "events_of KPost w' = events_of KPost w @
             (if truthy ?cb
              then [HttpPost ?cb (webhook_payload w ?eid st res) (authorization_header w)]
              else [])"
    by blast
  then have "events_of KPost w' = events_of KPost w @
             (if truthy ?cb
              then [HttpPost ?cb (webhook_payload w ?eid ''failed'' (failure_results script_result))
                      (authorization_header w)]
              else [])"
    by simp
  with rj r show ?thesis by (simp add: process_outcome)
qed

lemma failed_job_result_not_completed:
  "failed_job_result resp \<Longrightarrow> py_field (body resp) ''status'' \<noteq> Some (PStr ''completed'')"
  by (simp add: failed_job_result_def)

lemma error_response_not_completed:
  "py_field (body (error_response e)) ''status'' \<noteq> Some (PStr ''completed'')"
  by (simp add: error_response_def py_field_def)

text \<open>
  C7, as the claim states it, fails: the endpoint does not validate the request. For
  the sample request without \<open>scriptPath\<close> the calls made are a blob download, a
  POST to the callback URL and the unlink of the downloaded file: a file is downloaded
  and a webhook is sent.
\<close>

theorem missing_script_path_counterexample:
  "dict_get no_script_request ''scriptPath'' PNone = PNone \<and>
   map kind_of (trace (fst (process_finance_operation sample_world (Inr (PDict no_script_request)))))
     = [KDownload, KPost, KUnlink]"
  by (simp add: pipeline_defs no_script_request_def sample_world_def Let_def)

text \<open>
  C7, amended. A request in which \<open>scriptPath\<close> or \<open>fileReference\<close> is missing
  is not rejected up front, but it launches no subprocess and does not complete: the
  answer is a failed job result or the error envelope, and when the request gives a
  callback URL, one failure notification is posted to it. With \<open>fileReference\<close>
  missing the answer is the 500 response for the \<open>TypeError\<close> of subscripting None,
  and nothing is downloaded. With a \<open>fileReference\<close> that has a \<open>storagePath\<close>
  (so it is \<open>scriptPath\<close> that is missing) the blob download is attempted first:
  when it succeeds, the answer is 200 with status "failed" and the \<open>TypeError\<close> of
  \<^verbatim>\<open>os.path.join\<close> as the only error; when it fails, the answer is the 500 response
  with the download error.
\<close>

theorem missing_field_fails_without_subprocess:
  assumes "dict_get d ''scriptPath'' PNone = PNone \<or> dict_get d ''fileReference'' PNone = PNone"
  shows "\<exists>w' resp.
           process_finance_operation w (Inr (PDict d)) = (w', Inr resp) \<and>
           (failed_job_result resp \<or> error_envelope resp) \<and>
           events_of KRun w' = events_of KRun w \<and>
           (truthy (dict_get d ''callbackUrl'' PNone) \<longrightarrow>
              (\<exists>post. events_of KPost w' = events_of KPost w @ [post] \<and>
                      failure_post (dict_get d ''callbackUrl'' PNone) post)) \<and>
           (dict_get d ''fileReference'' PNone = PNone \<longrightarrow>
              resp = \<lparr>status_code = 500,
                      body = PDict [(''success'', PBool False),
                                    (''error'', PStr (quoted ''NoneType'' @
                                                      '' object is not subscriptable''))]\<rparr> \<and>
              events_of KDownload w' = events_of KDownload w) \<and>
           (\<forall>blob. py_subscript (dict_get d ''fileReference'' PNone) ''storagePath'' = Inr blob \<longrightarrow>
              events_of KDownload w' = events_of KDownload w @ [DownloadBlob blob (tmp_name w)] \<and>
              (blob_download w blob = Downloaded \<longrightarrow>
                 resp = \<lparr>status_code = 200,
                         body = PDict [(''success'', PBool True),
                                       (''executionId'', dict_get d ''executionId'' PNone),
                                       (''status'', PStr ''failed''),
                                       (''results'',
                                        PDict [(''success'', PBool False),
                                               (''message'', PStr ''Processing failed''),
                                               (''errors'',
                                                PList [PStr (''join() argument must be str, bytes, or os.PathLike object, not '' @
                                                             quoted ''NoneType'')]),
                                               (''data'', PDict [(''stdout'', PStr []),
                                                                (''stderr'', PStr []),
                                                                (''returncode'', PNone)])])]\<rparr>) \<and>
              (\<forall>msg kept. blob_download w blob = DownloadFailed msg kept \<longrightarrow>
                 resp = \<lparr>status_code = 500,
                         body = PDict [(''success'', PBool False), (''error'', PStr msg)]\<rparr>))"
proof -
  let ?eid = "dict_get d ''executionId'' PNone"
  let ?sp = "dict_get d ''scriptPath'' PNone"
  let ?fref = "dict_get d ''fileReference'' PNone"
  let ?cb = "dict_get d ''callbackUrl'' PNone"
  show ?thesis
  proof (cases "?fref = PNone")
    case True
    let ?e = "TypeError (quoted ''NoneType'' @ '' object is not subscriptable'')"
    have rj: "run_job w ?eid ?sp ?fref ?cb = (w, Inl ?e)"
      using True by (simp add: run_job_def download_none)
    have p: "process_finance_operation w (Inr (PDict d)) =
               (log_event (HttpPost ?cb (webhook_payload w ?eid ''failed'' (error_results ?e))
                             (authorization_header w)) w, Inr (error_response ?e))"
      using rj by (simp add: process_outcome)
    have r: "error_response ?e =
               \<lparr>status_code = 500,
                body = PDict [(''success'', PBool False),
                              (''error'', PStr (quoted ''NoneType'' @
                                                '' object is not subscriptable''))]\<rparr>"
      by (simp add: error_response_def)
    show ?thesis unfolding p using True r
      by (simp add: error_envelope_def py_field_def events_of_log_event failure_post_error_results)
  next
    case False
    with assms have sp: "?sp = PNone" by simp
    obtain w1 r where rj: "run_job w ?eid ?sp ?fref ?cb = (w1, r)" by fastforce
    obtain w0 r0 where dl: "download_file_from_storage w ?fref = (w0, r0)" by fastforce
    note ns = run_job_no_script[OF rj[unfolded sp]]
    note de = run_job_events[OF rj dl]
    obtain w' resp where p: "process_finance_operation w (Inr (PDict d)) = (w', Inr resp)"
      and w': "events_of KRun w' = events_of KRun w1" "events_of KDownload w' = events_of KDownload w1"
      and jf: "failed_job_result resp \<or> error_envelope resp"
      and nc: "py_field (body resp) ''status'' \<noteq> Some (PStr ''completed'')"
    proof (cases r)
      case (Inl e)
      with rj ns show ?thesis
        by (intro that[of "log_event (HttpPost ?cb (webhook_payload w1 ?eid ''failed'' (error_results e))
                             (authorization_header w1)) w1" "error_response e"])
           (simp_all add: process_outcome events_of_log_event error_envelope_error_response
                          error_response_not_completed)
    next
      case (Inr resp)
      with rj ns show ?thesis
        by (intro that[of w1 resp])
           (simp_all add: process_outcome failed_job_result_not_completed)
    qed
    have post: "truthy ?cb \<longrightarrow>
              (\<exists>post. events_of KPost w' = events_of KPost w @ [post] \<and> failure_post ?cb post)"
      using process_failure_post[OF rj p refl refl refl refl nc] by blast
    have dn: "events_of KDownload w' = events_of KDownload w @ [DownloadBlob blob (tmp_name w)]"
      if "py_subscript ?fref ''storagePath'' = Inr blob" for blob
      using download_events[OF that dl] de w'(2) by simp
    have ok: "resp = \<lparr>status_code = 200,
                         body = PDict [(''success'', PBool True),
                                       (''executionId'', ?eid),
                                       (''status'', PStr ''failed''),
                                       (''results'',
                                        PDict [(''success'', PBool False),
                                               (''message'', PStr ''Processing failed''),
                                               (''errors'',
                                                PList [PStr (''join() argument must be str, bytes, or os.PathLike object, not '' @
                                                             quoted ''NoneType'')]),
                                               (''data'', PDict [(''stdout'', PStr []),
                                                                (''stderr'', PStr []),
                                                                (''returncode'', PNone)])])]\<rparr>"
      if s: "py_subscript ?fref ''storagePath'' = Inr blob" and b: "blob_download w blob = Downloaded"
      for blob
    proof -
      let ?sr = "[(''success'', PBool False),
                  (''error'', PStr (''join() argument must be str, bytes, or os.PathLike object, not '' @
                                     quoted ''NoneType''))]"
      note d1 = download_ok[OF s b]
      have x: "execute_script
                 (log_event (DownloadBlob blob (tmp_name w)) (w\<lparr>fs := List.insert (tmp_name w) (fs w)\<rparr>))
                 ?sp (tmp_name w) ?eid
               = (log_event (DownloadBlob blob (tmp_name w)) (w\<lparr>fs := List.insert (tmp_name w) (fs w)\<rparr>),
                  Inr ?sr)"
        unfolding sp by (rule execute_script_none)
      have s: "dict_item ?sr ''success'' = Inr (PBool False)" by (simp add: dict_item_def)
      from process_script_failed[OF d1 x s] p show ?thesis
        by (auto simp: failure_results_def dict_get_def)
    qed
    have bad: "resp = \<lparr>status_code = 500,
                         body = PDict [(''success'', PBool False), (''error'', PStr msg)]\<rparr>"
      if s: "py_subscript ?fref ''storagePath'' = Inr blob"
         and b: "blob_download w blob = DownloadFailed msg kept"
      for blob msg kept
      using process_fetch_error[OF s b] p by (auto simp: error_response_def)
    from p jf w'(1) ns post dn ok bad False show ?thesis
      by (intro exI[of _ w'] exI[of _ resp]) simp
  qed
qed

theorem missing_field_fails_without_subprocess_witness:
  "dict_get no_script_request ''scriptPath'' PNone = PNone \<and>
   (\<exists>w' resp.
      process_finance_operation sample_world (Inr (PDict no_script_request)) = (w', Inr resp) \<and>
      resp = \<lparr>status_code = 200,
              body = PDict [(''success'', PBool True),
                            (''executionId'', PStr ''exec-3''),
                            (''status'', PStr ''failed''),
                            (''results'',
                             PDict [(''success'', PBool False),
                                    (''message'', PStr ''Processing failed''),
                                    (''errors'',
                                     PList [PStr (''join() argument must be str, bytes, or os.PathLike object, not '' @
                                                  quoted ''NoneType'')]),
                                    (''data'', PDict [(''stdout'', PStr []),
                                                     (''stderr'', PStr []),
                                                     (''returncode'', PNone)])])]\<rparr> \<and>
      events_of KRun w' = [] \<and>
      (\<exists>post. events_of KPost w' = [post] \<and> failure_post (PStr ''https://app.example/hook'') post) \<and>
      events_of KDownload w' =
        [DownloadBlob (PStr ''finance-operations/uploads/in.csv'') ''/tmp/tmpk3v9x1.csv''])"
proof -
  have a: "dict_get no_script_request ''scriptPath'' PNone = PNone"
    by (simp add: no_script_request_def dict_get_def)
  have cb: "dict_get no_script_request ''callbackUrl'' PNone = PStr ''https://app.example/hook''"
           "dict_get no_script_request ''executionId'' PNone = PStr ''exec-3''"
    by (simp_all add: no_script_request_def dict_get_def)
  have fr: "py_subscript (dict_get no_script_request ''fileReference'' PNone) ''storagePath''
              = Inr (PStr ''finance-operations/uploads/in.csv'')"
    by (simp add: no_script_request_def dict_get_def dict_item_def)
  have ev: "events_of KRun sample_world = []" "events_of KPost sample_world = []"
           "events_of KDownload sample_world = []" "tmp_name sample_world = ''/tmp/tmpk3v9x1.csv''"
           "blob_download sample_world (PStr ''finance-operations/uploads/in.csv'') = Downloaded"
    by (simp_all add: events_of_def sample_world_def)
  from missing_field_fails_without_subprocess [of no_script_request sample_world, OF disjI1, OF a]
  obtain w' resp where
    p: "process_finance_operation sample_world (Inr (PDict no_script_request)) = (w', Inr resp)" and
    r: "events_of KRun w' = events_of KRun sample_world" and
    h: "truthy (dict_get no_script_request ''callbackUrl'' PNone) \<longrightarrow>
              (\<exists>post. events_of KPost w' = events_of KPost sample_world @ [post] \<and>
                      failure_post (dict_get no_script_request ''callbackUrl'' PNone) post)" and
    dn: "\<forall>blob. py_subscript (dict_get no_script_request ''fileReference'' PNone) ''storagePath'' = Inr blob \<longrightarrow>
              events_of KDownload w' = events_of KDownload sample_world @ [DownloadBlob blob (tmp_name sample_world)] \<and>
              (blob_download sample_world blob = Downloaded \<longrightarrow>
                 resp = \<lparr>status_code = 200,
                         body = PDict [(''success'', PBool True),
                                       (''executionId'', dict_get no_script_request ''executionId'' PNone),
                                       (''status'', PStr ''failed''),
                                       (''results'',
                                        PDict [(''success'', PBool False),
                                               (''message'', PStr ''Processing failed''),
                                               (''errors'',
                                                PList [PStr (''join() argument must be str, bytes, or os.PathLike object, not '' @
                                                             quoted ''NoneType'')]),
                                               (''data'', PDict [(''stdout'', PStr []),
                                                                (''stderr'', PStr []),
                                                                (''returncode'', PNone)])])]\<rparr>) \<and>
              (\<forall>msg kept. blob_download sample_world blob = DownloadFailed msg kept \<longrightarrow>
                 resp = \<lparr>status_code = 500,
                         body = PDict [(''success'', PBool False), (''error'', PStr msg)]\<rparr>)"
    by (elim exE conjE) (rule that, assumption+)
  from h cb ev have post: "\<exists>post. events_of KPost w' = [post] \<and> failure_post (PStr ''https://app.example/hook'') post"
    by simp
  from dn[rule_format, OF fr] cb ev have
    "events_of KDownload w' =
        [DownloadBlob (PStr ''finance-operations/uploads/in.csv'') ''/tmp/tmpk3v9x1.csv'']"
    "resp = \<lparr>status_code = 200,
              body = PDict [(''success'', PBool True),
                            (''executionId'', PStr ''exec-3''),
                            (''status'', PStr ''failed''),
                            (''results'',
                             PDict [(''success'', PBool False),
                                    (''message'', PStr ''Processing failed''),
                                    (''errors'',
                                     PList [PStr (''join() argument must be str, bytes, or os.PathLike object, not '' @
                                                  quoted ''NoneType'')]),
                                    (''data'', PDict [(''stdout'', PStr []),
                                                     (''stderr'', PStr []),
                                                     (''returncode'', PNone)])])]\<rparr>"
    by simp_all
  with a p r ev post show ?thesis
    by (intro conjI exI[of _ w'] exI[of _ resp]) simp_all
qed

section \<open>The Job Orchestrator\<close>

text \<open>
  C1, as the claim states it, fails. For the sample request whose blob is not in the
  bucket the download raises, and what the endpoint returns is the error envelope
  \<open>{success: False, error}\<close> with code 500: it has no \<open>results\<close>, so the fetch
  error is not captured into a JobResult.
\<close>

theorem fetch_error_counterexample:
  "blob_download sample_world (PStr ''finance-operations/uploads/gone.csv'')
     = DownloadFailed ''404 No such object'' False \<and>
   snd (process_finance_operation sample_world (Inr (PDict missing_blob_request))) =
     Inr \<lparr>status_code = 500,
          body = PDict [(''success'', PBool False), (''error'', PStr ''404 No such object'')]\<rparr> \<and>
   py_field (body (projr (snd (process_finance_operation sample_world
                                 (Inr (PDict missing_blob_request)))))) ''results'' = None"
  by (simp add: pipeline_defs sample_world_def missing_blob_request_def py_field_def Let_def)

text \<open>
  C1, amended. \<open>process_finance_operation\<close> never raises: on every world and every
  request (also a body that cannot be decoded) it returns a response. For a request
  whose file reference has a storage path: when the download fails with message
  \<open>msg\<close>, the answer is the 500 envelope \<open>{success: False, error: msg}\<close>, which
  holds no JobResult; when the download succeeds and an existing script, run with a
  string execution id, exits with a non-zero code or is killed at the timeout, the answer is
  200 with status "failed" and a JobResult whose \<open>success\<close> is false. In each of the
  three cases, when the request gives a callback URL, exactly one POST goes to that
  URL during the call, with status "failed" and a failure JobResult (\<open>success:
  False\<close>) as results.
\<close>

theorem process_never_raises_and_reports_failure:
  "(\<exists>w' resp. process_finance_operation w request_json = (w', Inr resp)) \<and>
   (\<forall>blob. py_subscript (dict_get d ''fileReference'' PNone) ''storagePath'' = Inr blob \<longrightarrow>
      (\<forall>msg kept. blob_download w blob = DownloadFailed msg kept \<longrightarrow>
         (\<exists>w'. process_finance_operation w (Inr (PDict d)) =
                  (w', Inr \<lparr>status_code = 500,
                           body = PDict [(''success'', PBool False), (''error'', PStr msg)]\<rparr>) \<and>
               (truthy (dict_get d ''callbackUrl'' PNone) \<longrightarrow>
                  events_of KPost w' = events_of KPost w @
                    [HttpPost (dict_get d ''callbackUrl'' PNone)
                       (PDict [(''executionId'', dict_get d ''executionId'' PNone),
                               (''status'', PStr ''failed''),
                               (''results'',
                                PDict [(''success'', PBool False),
                                       (''message'', PStr (''Processing error: '' @ msg)),
                                       (''errors'', PList [PStr msg])]),
                               (''timestamp'', PStr (now_iso w))])
                       (authorization_header w)]))) \<and>
      (\<forall>full_script_path eid.
         blob_download w blob = Downloaded \<longrightarrow>
         os_path_join script_dir (dict_get d ''scriptPath'' PNone) = Inr full_script_path \<longrightarrow>
         path_exists w full_script_path \<longrightarrow>
         dict_get d ''executionId'' PNone = PStr eid \<longrightarrow>
         (\<forall>returncode out err.
            subprocess_run w full_script_path (tmp_name w) eid = Completed returncode out err \<longrightarrow>
            returncode \<noteq> 0 \<longrightarrow>
            (\<exists>w'. process_finance_operation w (Inr (PDict d)) =
                     (w', Inr \<lparr>status_code = 200,
                              body = PDict [(''success'', PBool True),
                                            (''executionId'', PStr eid),
                                            (''status'', PStr ''failed''),
                                            (''results'',
                                             PDict [(''success'', PBool False),
                                                    (''message'', PStr ''Processing failed''),
                                                    (''errors'', PList [PStr ''Unknown error'']),
                                                    (''data'', PDict [(''stdout'', PStr out),
                                                                     (''stderr'', PStr err),
                                                                     (''returncode'', PInt returncode)])])]\<rparr>) \<and>
                  (truthy (dict_get d ''callbackUrl'' PNone) \<longrightarrow>
                     events_of KPost w' = events_of KPost w @
                       [HttpPost (dict_get d ''callbackUrl'' PNone)
                          (PDict [(''executionId'', PStr eid),
                                  (''status'', PStr ''failed''),
                                  (''results'',
                                   PDict [(''success'', PBool False),
                                          (''message'', PStr ''Processing failed''),
                                          (''errors'', PList [PStr ''Unknown error'']),
                                          (''data'', PDict [(''stdout'', PStr out),
                                                           (''stderr'', PStr err),
                                                           (''returncode'', PInt returncode)])]),
                                  (''timestamp'', PStr (now_iso w))])
                          (authorization_header w)]))) \<and>
         (\<forall>partial_out partial_err.
            subprocess_run w full_script_path (tmp_name w) eid = TimedOut partial_out partial_err \<longrightarrow>
            (\<exists>w'. process_finance_operation w (Inr (PDict d)) =
                     (w', Inr \<lparr>status_code = 200,
                              body = PDict [(''success'', PBool True),
                                            (''executionId'', PStr eid),
                                            (''status'', PStr ''failed''),
                                            (''results'',
                                             PDict [(''success'', PBool False),
                                                    (''message'', PStr ''Processing failed''),
                                                    (''errors'', PList [PStr ''Script execution timed out after 5 minutes'']),
                                                    (''data'', PDict [(''stdout'', PStr []),
                                                                     (''stderr'', PStr []),
                                                                     (''returncode'', PNone)])])]\<rparr>) \<and>
                  (truthy (dict_get d ''callbackUrl'' PNone) \<longrightarrow>
                     events_of KPost w' = events_of KPost w @
                       [HttpPost (dict_get d ''callbackUrl'' PNone)
                          (PDict [(''executionId'', PStr eid),
                                  (''status'', PStr ''failed''),
                                  (''results'',
                                   PDict [(''success'', PBool False),
                                          (''message'', PStr ''Processing failed''),
                                          (''errors'', PList [PStr ''Script execution timed out after 5 minutes'']),
                                          (''data'', PDict [(''stdout'', PStr []),
                                                           (''stderr'', PStr []),
                                                           (''returncode'', PNone)])]),
                                  (''timestamp'', PStr (now_iso w))])
                          (authorization_header w)])))))"
proof (intro conjI allI impI)
  show "\<exists>w' resp. process_finance_operation w request_json = (w', Inr resp)"
    by (rule process_returns)
next
  fix blob msg kept
  assume "py_subscript (dict_get d ''fileReference'' PNone) ''storagePath'' = Inr blob"
     and "blob_download w blob = DownloadFailed msg kept"
  from process_fetch_error[OF this] obtain w' where
    "process_finance_operation w (Inr (PDict d)) = (w', Inr (error_response (ExternalError msg)))"
    "events_of KPost w' = events_of KPost w @
                 [HttpPost (dict_get d ''callbackUrl'' PNone)
                    (webhook_payload w (dict_get d ''executionId'' PNone) ''failed''
                       (error_results (ExternalError msg)))
                    (authorization_header w)]"
    by blast
  then show "\<exists>w'. process_finance_operation w (Inr (PDict d)) =
                  (w', Inr \<lparr>status_code = 500,
                           body = PDict [(''success'', PBool False), (''error'', PStr msg)]\<rparr>) \<and>
               (truthy (dict_get d ''callbackUrl'' PNone) \<longrightarrow>
                  events_of KPost w' = events_of KPost w @
                    [HttpPost (dict_get d ''callbackUrl'' PNone)
                       (PDict [(''executionId'', dict_get d ''executionId'' PNone),
                               (''status'', PStr ''failed''),
                               (''results'',
                                PDict [(''success'', PBool False),
                                       (''message'', PStr (''Processing error: '' @ msg)),
                                       (''errors'', PList [PStr msg])]),
                               (''timestamp'', PStr (now_iso w))])
                       (authorization_header w)])"
    by (intro exI[of _ w'])
       (simp add: error_response_def error_results_def webhook_payload_def)
next
  fix blob full_script_path eid returncode out err
  assume sub: "py_subscript (dict_get d ''fileReference'' PNone) ''storagePath'' = Inr blob"
     and ok: "blob_download w blob = Downloaded"
     and join: "os_path_join script_dir (dict_get d ''scriptPath'' PNone) = Inr full_script_path"
     and ex: "path_exists w full_script_path"
     and eid: "dict_get d ''executionId'' PNone = PStr eid"
     and run: "subprocess_run w full_script_path (tmp_name w) eid = Completed returncode out err"
     and nz: "returncode \<noteq> 0"
  let ?w1 = "log_event (DownloadBlob blob (tmp_name w)) (w\<lparr>fs := List.insert (tmp_name w) (fs w)\<rparr>)"
  let ?sr = "[(''success'', PBool (returncode = 0)), (''stdout'', PStr out),
              (''stderr'', PStr err), (''returncode'', PInt returncode)]"
  have dl: "download_file_from_storage w (dict_get d ''fileReference'' PNone) = (?w1, Inr (tmp_name w))"
    using sub ok by (rule download_ok)
  have ex1: "path_exists ?w1 full_script_path"
    using ex by (simp add: path_exists_def log_event_def)
  have run1: "subprocess_run ?w1 full_script_path (tmp_name w) eid = Completed returncode out err"
    using run by (simp add: log_event_def)
  note x = execute_completed[OF join ex1 run1, folded eid]
  have s: "dict_item ?sr ''success'' = Inr (PBool False)"
    using nz by (simp add: dict_item_def)
  from process_script_failed[OF dl x s] obtain w' where
    "process_finance_operation w (Inr (PDict d)) =
                 (w', Inr \<lparr>status_code = 200,
                          body = PDict [(''success'', PBool True),
                                        (''executionId'', dict_get d ''executionId'' PNone),
                                        (''status'', PStr ''failed''),
                                        (''results'', failure_results ?sr)]\<rparr>)"
    "events_of KPost w' = events_of KPost w @
                 (if truthy (dict_get d ''callbackUrl'' PNone)
                  then [HttpPost (dict_get d ''callbackUrl'' PNone)
                          (webhook_payload w (dict_get d ''executionId'' PNone) ''failed''
                             (failure_results ?sr))
                          (authorization_header w)]
                  else [])"
    by blast
  then show "\<exists>w'. process_finance_operation w (Inr (PDict d)) =
                     (w', Inr \<lparr>status_code = 200,
                              body = PDict [(''success'', PBool True),
                                            (''executionId'', PStr eid),
                                            (''status'', PStr ''failed''),
                                            (''results'',
                                             PDict [(''success'', PBool False),
                                                    (''message'', PStr ''Processing failed''),
                                                    (''errors'', PList [PStr ''Unknown error'']),
                                                    (''data'', PDict [(''stdout'', PStr out),
                                                                     (''stderr'', PStr err),
                                                                     (''returncode'', PInt returncode)])])]\<rparr>) \<and>
                  (truthy (dict_get d ''callbackUrl'' PNone) \<longrightarrow>
                     events_of KPost w' = events_of KPost w @
                       [HttpPost (dict_get d ''callbackUrl'' PNone)
                          (PDict [(''executionId'', PStr eid),
                                  (''status'', PStr ''failed''),
                                  (''results'',
                                   PDict [(''success'', PBool False),
                                          (''message'', PStr ''Processing failed''),
                                          (''errors'', PList [PStr ''Unknown error'']),
                                          (''data'', PDict [(''stdout'', PStr out),
                                                           (''stderr'', PStr err),
                                                           (''returncode'', PInt returncode)])]),
                                  (''timestamp'', PStr (now_iso w))])
                          (authorization_header w)])"
    using eid
    by (intro exI[of _ w'])
       (simp add: failure_results_def dict_get_def webhook_payload_def)
next
  fix blob full_script_path eid partial_out partial_err
  assume sub: "py_subscript (dict_get d ''fileReference'' PNone) ''storagePath'' = Inr blob"
     and ok: "blob_download w blob = Downloaded"
     and join: "os_path_join script_dir (dict_get d ''scriptPath'' PNone) = Inr full_script_path"
     and ex: "path_exists w full_script_path"
     and eid: "dict_get d ''executionId'' PNone = PStr eid"
     and run: "subprocess_run w full_script_path (tmp_name w) eid = TimedOut partial_out partial_err"
  let ?w1 = "log_event (DownloadBlob blob (tmp_name w)) (w\<lparr>fs := List.insert (tmp_name w) (fs w)\<rparr>)"
  let ?sr = "[(''success'', PBool False),
              (''error'', PStr ''Script execution timed out after 5 minutes'')]"
  have dl: "download_file_from_storage w (dict_get d ''fileReference'' PNone) = (?w1, Inr (tmp_name w))"
    using sub ok by (rule download_ok)
  have ex1: "path_exists ?w1 full_script_path"
    using ex by (simp add: path_exists_def log_event_def)
  have run1: "subprocess_run ?w1 full_script_path (tmp_name w) eid = TimedOut partial_out partial_err"
    using run by (simp add: log_event_def)
  note x = execute_timed_out[OF join ex1 run1, folded eid]
  have s: "dict_item ?sr ''success'' = Inr (PBool False)"
    by (simp add: dict_item_def)
  from process_script_failed[OF dl x s] obtain w' where
    "process_finance_operation w (Inr (PDict d)) =
                 (w', Inr \<lparr>status_code = 200,
                          body = PDict [(''success'', PBool True),
                                        (''executionId'', dict_get d ''executionId'' PNone),
                                        (''status'', PStr ''failed''),
                                        (''results'', failure_results ?sr)]\<rparr>)"
    "events_of KPost w' = events_of KPost w @
                 (if truthy (dict_get d ''callbackUrl'' PNone)
                  then [HttpPost (dict_get d ''callbackUrl'' PNone)
                          (webhook_payload w (dict_get d ''executionId'' PNone) ''failed''
                             (failure_results ?sr))
                          (authorization_header w)]
                  else [])"
    by blast
  then show "\<exists>w'. process_finance_operation w (Inr (PDict d)) =
                     (w', Inr \<lparr>status_code = 200,
                              body = PDict [(''success'', PBool True),
                                            (''executionId'', PStr eid),
                                            (''status'', PStr ''failed''),
                                            (''results'',
                                             PDict [(''success'', PBool False),
                                                    (''message'', PStr ''Processing failed''),
                                                    (''errors'', PList [PStr ''Script execution timed out after 5 minutes'']),
                                                    (''data'', PDict [(''stdout'', PStr []),
                                                                     (''stderr'', PStr []),
                                                                     (''returncode'', PNone)])])]\<rparr>) \<and>
                  (truthy (dict_get d ''callbackUrl'' PNone) \<longrightarrow>
                     events_of KPost w' = events_of KPost w @
                       [HttpPost (dict_get d ''callbackUrl'' PNone)
                          (PDict [(''executionId'', PStr eid),
                                  (''status'', PStr ''failed''),
                                  (''results'',
                                   PDict [(''success'', PBool False),
                                          (''message'', PStr ''Processing failed''),
                                          (''errors'', PList [PStr ''Script execution timed out after 5 minutes'']),
                                          (''data'', PDict [(''stdout'', PStr []),
                                                           (''stderr'', PStr []),
                                                           (''returncode'', PNone)])]),
                                  (''timestamp'', PStr (now_iso w))])
                          (authorization_header w)])"
    using eid
    by (intro exI[of _ w'])
       (simp add: failure_results_def dict_get_def webhook_payload_def)
qed

theorem process_never_raises_and_reports_failure_witness:
  "(\<exists>w'. process_finance_operation sample_world (Inr (PDict missing_blob_request)) =
            (w', Inr \<lparr>status_code = 500,
                     body = PDict [(''success'', PBool False),
                                   (''error'', PStr ''404 No such object'')]\<rparr>) \<and>
         events_of KPost w' =
           [HttpPost (PStr ''https://app.example/hook'')
              (PDict [(''executionId'', PStr ''exec-2''),
                      (''status'', PStr ''failed''),
                      (''results'',
                       PDict [(''success'', PBool False),
                              (''message'', PStr ''Processing error: 404 No such object''),
                              (''errors'', PList [PStr ''404 No such object''])]),
                      (''timestamp'', PStr ''2024-05-01T12:00:00'')])
              ''Bearer s3cret'']) \<and>
   (\<exists>w'. process_finance_operation failing_script_world (Inr (PDict sample_request)) =
            (w', Inr \<lparr>status_code = 200,
                     body = PDict [(''success'', PBool True),
                                   (''executionId'', PStr ''exec-1''),
                                   (''status'', PStr ''failed''),
                                   (''results'',
                                    PDict [(''success'', PBool False),
                                           (''message'', PStr ''Processing failed''),
                                           (''errors'', PList [PStr ''Unknown error'']),
                                           (''data'', PDict [(''stdout'', PStr []),
                                                            (''stderr'', PStr ''boom''),
                                                            (''returncode'', PInt 1)])])]\<rparr>) \<and>
         events_of KPost w' =
           [HttpPost (PStr ''https://app.example/hook'')
              (PDict [(''executionId'', PStr ''exec-1''),
                      (''status'', PStr ''failed''),
                      (''results'',
                       PDict [(''success'', PBool False),
                              (''message'', PStr ''Processing failed''),
                              (''errors'', PList [PStr ''Unknown error'']),
                              (''data'', PDict [(''stdout'', PStr []),
                                               (''stderr'', PStr ''boom''),
                                               (''returncode'', PInt 1)])]),
                      (''timestamp'', PStr ''2024-05-01T12:00:00'')])
              ''Bearer s3cret'']) \<and>
   (\<exists>w'. process_finance_operation timeout_world (Inr (PDict sample_request)) =
            (w', Inr \<lparr>status_code = 200,
                     body = PDict [(''success'', PBool True),
                                   (''executionId'', PStr ''exec-1''),
                                   (''status'', PStr ''failed''),
                                   (''results'',
                                    PDict [(''success'', PBool False),
                                           (''message'', PStr ''Processing failed''),
                                           (''errors'', PList [PStr ''Script execution timed out after 5 minutes'']),
                                           (''data'', PDict [(''stdout'', PStr []),
                                                            (''stderr'', PStr []),
                                                            (''returncode'', PNone)])])]\<rparr>) \<and>
         events_of KPost w' =
           [HttpPost (PStr ''https://app.example/hook'')
              (PDict [(''executionId'', PStr ''exec-1''),
                      (''status'', PStr ''failed''),
                      (''results'',
                       PDict [(''success'', PBool False),
                              (''message'', PStr ''Processing failed''),
                              (''errors'', PList [PStr ''Script execution timed out after 5 minutes'']),
                              (''data'', PDict [(''stdout'', PStr []),
                                               (''stderr'', PStr []),
                                               (''returncode'', PNone)])]),
                      (''timestamp'', PStr ''2024-05-01T12:00:00'')])
              ''Bearer s3cret''])"
proof (intro conjI)
  have sub: "py_subscript (dict_get missing_blob_request ''fileReference'' PNone) ''storagePath''
               = Inr (PStr ''finance-operations/uploads/gone.csv'')"
    by (simp add: missing_blob_request_def dict_get_def dict_item_def)
  have dl: "blob_download sample_world (PStr ''finance-operations/uploads/gone.csv'')
              = DownloadFailed ''404 No such object'' False"
    by (simp add: sample_world_def)
  have f: "dict_get missing_blob_request ''callbackUrl'' PNone = PStr ''https://app.example/hook''"
          "dict_get missing_blob_request ''executionId'' PNone = PStr ''exec-2''"
          "events_of KPost sample_world = []" "now_iso sample_world = ''2024-05-01T12:00:00''"
          "authorization_header sample_world = ''Bearer s3cret''"
    by (simp_all add: missing_blob_request_def dict_get_def events_of_def sample_world_def
                      authorization_header_def)
  from process_never_raises_and_reports_failure [of sample_world "Inr (PDict missing_blob_request)" missing_blob_request,
           THEN conjunct2, rule_format, OF sub, THEN conjunct1, rule_format, OF dl]
  show "\<exists>w'. process_finance_operation sample_world (Inr (PDict missing_blob_request)) =
            (w', Inr \<lparr>status_code = 500,
                     body = PDict [(''success'', PBool False),
                                   (''error'', PStr ''404 No such object'')]\<rparr>) \<and>
         events_of KPost w' =
           [HttpPost (PStr ''https://app.example/hook'')
              (PDict [(''executionId'', PStr ''exec-2''),
                      (''status'', PStr ''failed''),
                      (''results'',
                       PDict [(''success'', PBool False),
                              (''message'', PStr ''Processing error: 404 No such object''),
                              (''errors'', PList [PStr ''404 No such object''])]),
                      (''timestamp'', PStr ''2024-05-01T12:00:00'')])
              ''Bearer s3cret'']"
    by (simp add: f)
next
  have ok: "blob_download failing_script_world (PStr ''finance-operations/uploads/in.csv'') = Downloaded"
    by (simp add: failing_script_world_def sample_world_def)
  have ex: "path_exists failing_script_world ''/app/scripts/stripe_balance_payout.py''"
    by (simp add: path_exists_def failing_script_world_def sample_world_def)
  have run: "subprocess_run failing_script_world ''/app/scripts/stripe_balance_payout.py''
               (tmp_name failing_script_world) ''exec-1'' = Completed 1 [] ''boom''"
    by (simp add: failing_script_world_def sample_world_def)
  have f: "dict_get sample_request ''callbackUrl'' PNone = PStr ''https://app.example/hook''"
          "events_of KPost failing_script_world = []"
          "now_iso failing_script_world = ''2024-05-01T12:00:00''"
          "authorization_header failing_script_world = ''Bearer s3cret''"
    by (simp_all add: sample_request_def dict_get_def events_of_def failing_script_world_def
                      sample_world_def authorization_header_def)
  from process_never_raises_and_reports_failure [of failing_script_world "Inr (PDict sample_request)" sample_request,
           THEN conjunct2, rule_format, OF sample_request_facts(3), THEN conjunct2, rule_format,
           OF ok sample_request_facts(1) ex sample_request_facts(2), THEN conjunct1, rule_format,
           OF run]
  show "\<exists>w'. process_finance_operation failing_script_world (Inr (PDict sample_request)) =
            (w', Inr \<lparr>status_code = 200,
                     body = PDict [(''success'', PBool True),
                                   (''executionId'', PStr ''exec-1''),
                                   (''status'', PStr ''failed''),
                                   (''results'',
                                    PDict [(''success'', PBool False),
                                           (''message'', PStr ''Processing failed''),
                                           (''errors'', PList [PStr ''Unknown error'']),
                                           (''data'', PDict [(''stdout'', PStr []),
                                                            (''stderr'', PStr ''boom''),
                                                            (''returncode'', PInt 1)])])]\<rparr>) \<and>
         events_of KPost w' =
           [HttpPost (PStr ''https://app.example/hook'')
              (PDict [(''executionId'', PStr ''exec-1''),
                      (''status'', PStr ''failed''),
                      (''results'',
                       PDict [(''success'', PBool False),
                              (''message'', PStr ''Processing failed''),
                              (''errors'', PList [PStr ''Unknown error'']),
                              (''data'', PDict [(''stdout'', PStr []),
                                               (''stderr'', PStr ''boom''),
                                               (''returncode'', PInt 1)])]),
                      (''timestamp'', PStr ''2024-05-01T12:00:00'')])
              ''Bearer s3cret'']"
    by (simp add: f)
next
  have ok: "blob_download timeout_world (PStr ''finance-operations/uploads/in.csv'') = Downloaded"
    by (simp add: timeout_world_def sample_world_def)
  have ex: "path_exists timeout_world ''/app/scripts/stripe_balance_payout.py''"
    by (simp add: path_exists_def timeout_world_def sample_world_def)
  have run: "subprocess_run timeout_world ''/app/scripts/stripe_balance_payout.py''
               (tmp_name timeout_world) ''exec-1'' = TimedOut (Some ''progress'') (Some ''INFO: started'')"
    by (simp add: timeout_world_def sample_world_def)
  have f: "dict_get sample_request ''callbackUrl'' PNone = PStr ''https://app.example/hook''"
          "events_of KPost timeout_world = []"
          "now_iso timeout_world = ''2024-05-01T12:00:00''"
          "authorization_header timeout_world = ''Bearer s3cret''"
    by (simp_all add: sample_request_def dict_get_def events_of_def timeout_world_def
                      sample_world_def authorization_header_def)
  from process_never_raises_and_reports_failure [of timeout_world "Inr (PDict sample_request)" sample_request,
           THEN conjunct2, rule_format, OF sample_request_facts(3), THEN conjunct2, rule_format,
           OF ok sample_request_facts(1) ex sample_request_facts(2), THEN conjunct2, rule_format,
           OF run]
  show "\<exists>w'. process_finance_operation timeout_world (Inr (PDict sample_request)) =
            (w', Inr \<lparr>status_code = 200,
                     body = PDict [(''success'', PBool True),
                                   (''executionId'', PStr ''exec-1''),
                                   (''status'', PStr ''failed''),
                                   (''results'',
                                    PDict [(''success'', PBool False),
                                           (''message'', PStr ''Processing failed''),
                                           (''errors'', PList [PStr ''Script execution timed out after 5 minutes'']),
                                           (''data'', PDict [(''stdout'', PStr []),
                                                            (''stderr'', PStr []),
                                                            (''returncode'', PNone)])])]\<rparr>) \<and>
         events_of KPost w' =
           [HttpPost (PStr ''https://app.example/hook'')
              (PDict [(''executionId'', PStr ''exec-1''),
                      (''status'', PStr ''failed''),
                      (''results'',
                       PDict [(''success'', PBool False),
                              (''message'', PStr ''Processing failed''),
                              (''errors'', PList [PStr ''Script execution timed out after 5 minutes'']),
                              (''data'', PDict [(''stdout'', PStr []),
                                               (''stderr'', PStr []),
                                               (''returncode'', PNone)])]),
                      (''timestamp'', PStr ''2024-05-01T12:00:00'')])
              ''Bearer s3cret'']"
    by (simp add: f)
qed

section \<open>Metrics of a successful run\<close>

lemma parse_metrics_last_line:
  assumes "map_of script_result ''stdout'' = Some (PStr out)"
      and "last_nonempty_line out = Some line"
      and "json_loads w line = Some v"
      and "json_loads w [] = None"
      and "\<forall>s v. json_loads w s = Some v \<longrightarrow> json_loads w (lstrip s) = Some v"
      and "\<forall>s v. json_loads w s = Some v \<longrightarrow> json_loads w (rstrip s) = Some v"
  shows "parse_metrics w script_result = v"
proof -
  from last_nonempty_line_shape[OF assms(2)] obtain p k where
    "out = p @ line @ replicate k (CHR 0x0A)" "p = [] \<or> last p = CHR 0x0A" "CHR 0x0A \<notin> set line"
    by blast
  from stripped_last_line[OF this assms(3,4,5,6)]
  have "strip out \<noteq> []" "json_loads w (last (split_nl (strip out))) = Some v" by simp_all
  with assms(1) show ?thesis
    by (simp add: parse_metrics_def parse_metrics_try_def dict_item_def last_item_def split_nl_nonempty)
qed

lemma parse_metrics_try_log_event:
  "parse_metrics_try (log_event e w) script_result = parse_metrics_try w script_result"
  by (simp add: parse_metrics_try_def log_event_def split: sum.split pyval.split)

lemma parse_metrics_log_event:
  "parse_metrics (log_event e w) script_result = parse_metrics w script_result"
  by (simp add: parse_metrics_def parse_metrics_try_log_event)

lemma build_results_success:
  assumes "dict_item script_result ''success'' = Inr (PBool True)"
      and "parse_metrics w script_result = PDict m"
      and "\<not> path_exists w result_file_path \<or>
           (\<exists>descriptor. storage_upload w result_file_path execution_id = Inr descriptor)"
  shows "\<exists>w' results. build_results w script_result execution_id = (w', Inr (results, ''completed'')) \<and>
           py_field results ''success'' = Some (PBool True) \<and>
           py_field results ''data'' = Some (PDict m)"
  using assms
  by (auto simp: build_results_def upload_result_to_storage_def parse_metrics_log_event
                 success_results_def py_field_def Let_def)

lemma run_job_finishes:
  assumes "download_file_from_storage w file_reference = (w1, Inr input_file_path)"
      and "execute_script w1 script_path input_file_path execution_id = (w2, Inr script_result)"
      and "build_results w2 script_result execution_id = (w3, Inr (results, status))"
  shows "snd (run_job w execution_id script_path file_reference callback_url) =
           Inr \<lparr>status_code = 200,
                body = PDict [(''success'', PBool True),
                              (''executionId'', execution_id),
                              (''status'', PStr status),
                              (''results'', results)]\<rparr>"
  using assms
  by (simp add: run_job_def send_webhook_notification_eq)

lemma sample_loads_stripped:
  "json_loads sample_world [] = None"
  "\<forall>s v. json_loads sample_world s = Some v \<longrightarrow> json_loads sample_world (lstrip s) = Some v"
  "\<forall>s v. json_loads sample_world s = Some v \<longrightarrow> json_loads sample_world (rstrip s) = Some v"
proof -
  have l: "lstrip metrics_line = metrics_line" "lstrip ''{}'' = ''{}''" "lstrip ''42'' = ''42''"
    by (simp_all add: lstrip_def py_isspace_def metrics_line_def)
  have r: "rstrip metrics_line = metrics_line" "rstrip ''{}'' = ''{}''" "rstrip ''42'' = ''42''"
    by (simp_all add: rstrip_def py_isspace_def metrics_line_def)
  show "json_loads sample_world [] = None"
    by (simp add: sample_world_def sample_loads_def metrics_line_def)
  show "\<forall>s v. json_loads sample_world s = Some v \<longrightarrow> json_loads sample_world (lstrip s) = Some v"
    using l by (auto simp: sample_world_def sample_loads_def split: if_splits)
  show "\<forall>s v. json_loads sample_world s = Some v \<longrightarrow> json_loads sample_world (rstrip s) = Some v"
    using r by (auto simp: sample_world_def sample_loads_def split: if_splits)
qed

lemma sample_output_last_line:
  "last_nonempty_line (''progress'' @ [CHR 0x0A] @ metrics_line @ [CHR 0x0A]) = Some metrics_line"
  by (simp add: last_nonempty_line_def metrics_line_def)

text \<open>
  C4, as the claim states it, fails. In the sample run below the script exits 0 and
  the last non-empty line of its output is a well-formed metrics record, but the
  script has left \<^verbatim>\<open>/tmp/result.csv\<close> and its upload raises: the exception reaches the
  handler and the answer is the 500 response with \<open>success: False\<close>.
\<close>

theorem upload_error_counterexample:
  "subprocess_run result_file_world ''/app/scripts/stripe_balance_payout.py'' ''/tmp/tmpk3v9x1.csv'' ''exec-1''
     = Completed 0 (''progress'' @ [CHR 0x0A] @ metrics_line @ [CHR 0x0A]) ''INFO: done'' \<and>
   last_nonempty_line (''progress'' @ [CHR 0x0A] @ metrics_line @ [CHR 0x0A]) = Some metrics_line \<and>
   json_loads result_file_world metrics_line = Some (PDict metrics_record) \<and>
   snd (process_finance_operation result_file_world (Inr (PDict sample_request))) =
     Inr \<lparr>status_code = 500,
          body = PDict [(''success'', PBool False),
                        (''error'', PStr ''503 Service Unavailable'')]\<rparr>"
  by (simp add: pipeline_defs result_file_world_def sample_world_def sample_request_def
                sample_loads_def last_nonempty_line_def metrics_line_def Let_def)

text \<open>
  C4, amended. Let the request name an existing script, carry a string execution id
  and a file reference whose blob downloads; let the script exit 0 with standard
  output \<open>out\<close> whose last non-empty line is \<open>line\<close>, let \<^verbatim>\<open>json.loads\<close> return
  the dictionary \<open>m\<close> for \<open>line\<close>, and let no \<^verbatim>\<open>/tmp/result.csv\<close> exist once
  the script has run (neither written by it nor left there before the call), or let
  the upload of that file succeed. Then the endpoint answers
  200 with status "completed", and the results have \<open>success: True\<close> and carry exactly
  \<open>m\<close> as their data: the lines before the last one play no part. The first three
  assumptions state what is used of \<^verbatim>\<open>json.loads\<close>: it rejects the empty text, and a
  text it accepts is accepted, with the same value, after leading or trailing
  whitespace is stripped.
\<close>

theorem metrics_equal_last_line_record:
  assumes "json_loads w [] = None"
      and "\<forall>s v. json_loads w s = Some v \<longrightarrow> json_loads w (lstrip s) = Some v"
      and "\<forall>s v. json_loads w s = Some v \<longrightarrow> json_loads w (rstrip s) = Some v"
      and "os_path_join script_dir (dict_get d ''scriptPath'' PNone) = Inr full_script_path"
      and "path_exists w full_script_path"
      and "dict_get d ''executionId'' PNone = PStr eid"
      and "py_subscript (dict_get d ''fileReference'' PNone) ''storagePath'' = Inr blob"
      and "blob_download w blob = Downloaded"
      and "subprocess_run w full_script_path (tmp_name w) eid = Completed 0 out err"
      and "last_nonempty_line out = Some line"
      and "json_loads w line = Some (PDict m)"
      and "result_file_path \<notin> set (script_effect w full_script_path (tmp_name w) eid
                                        (List.insert (tmp_name w) (fs w))) \<or>
           (\<exists>descriptor. storage_upload w result_file_path (PStr eid) = Inr descriptor)"
  shows "\<exists>results.
           snd (process_finance_operation w (Inr (PDict d))) =
             Inr \<lparr>status_code = 200,
                  body = PDict [(''success'', PBool True),
                                (''executionId'', PStr eid),
                                (''status'', PStr ''completed''),
                                (''results'', results)]\<rparr> \<and>
           py_field results ''success'' = Some (PBool True) \<and>
           py_field results ''data'' = Some (PDict m)"
proof -
  let ?w1 = "log_event (DownloadBlob blob (tmp_name w)) (w\<lparr>fs := List.insert (tmp_name w) (fs w)\<rparr>)"
  let ?w2 = "log_event (RunSubprocess full_script_path (tmp_name w) eid) ?w1
              \<lparr>fs := script_effect ?w1 full_script_path (tmp_name w) eid (fs ?w1)\<rparr>"
  let ?sr = "[(''success'', PBool ((0::int) = 0)), (''stdout'', PStr out),
              (''stderr'', PStr err), (''returncode'', PInt 0)]"
  have dl: "download_file_from_storage w (dict_get d ''fileReference'' PNone) = (?w1, Inr (tmp_name w))"
    using assms(7,8) by (rule download_ok)
  have ex1: "path_exists ?w1 full_script_path"
    using assms(5) by (simp add: path_exists_def log_event_def)
  have run1: "subprocess_run ?w1 full_script_path (tmp_name w) eid = Completed 0 out err"
    using assms(9) by (simp add: log_event_def)
  have ex: "execute_script ?w1 (dict_get d ''scriptPath'' PNone) (tmp_name w) (PStr eid) = (?w2, Inr ?sr)"
    by (rule execute_completed[OF assms(4) ex1 run1])
  have s: "dict_item ?sr ''success'' = Inr (PBool True)"
    by (simp add: dict_item_def)
  have pm: "parse_metrics ?w2 ?sr = PDict m"
    by (rule parse_metrics_last_line[where out = out and line = line])
       (use assms(1,2,3,10,11) in \<open>simp_all add: log_event_def\<close>)
  have up: "\<not> path_exists ?w2 result_file_path \<or>
           (\<exists>descriptor. storage_upload ?w2 result_file_path (PStr eid) = Inr descriptor)"
    using assms(12) by (simp add: path_exists_def log_event_def)
  from build_results_success[OF s pm up] obtain w3 results where
    b: "build_results ?w2 ?sr (PStr eid) = (w3, Inr (results, ''completed''))" and
    r: "py_field results ''success'' = Some (PBool True)" "py_field results ''data'' = Some (PDict m)"
    by blast
  from run_job_finishes[OF dl ex b, of "dict_get d ''callbackUrl'' PNone"] assms(6)
  have "snd (process_finance_operation w (Inr (PDict d))) =
          Inr \<lparr>status_code = 200,
               body = PDict [(''success'', PBool True), (''executionId'', PStr eid),
                             (''status'', PStr ''completed''), (''results'', results)]\<rparr>"
    by (intro process_of_run_job) simp
  with r show ?thesis by blast
qed

theorem metrics_equal_last_line_record_witness:
  "subprocess_run sample_world ''/app/scripts/stripe_balance_payout.py'' ''/tmp/tmpk3v9x1.csv'' ''exec-1''
     = Completed 0 (''progress'' @ [CHR 0x0A] @ metrics_line @ [CHR 0x0A]) ''INFO: done'' \<and>
   (\<exists>results.
      snd (process_finance_operation sample_world (Inr (PDict sample_request))) =
        Inr \<lparr>status_code = 200,
             body = PDict [(''success'', PBool True),
                           (''executionId'', PStr ''exec-1''),
                           (''status'', PStr ''completed''),
                           (''results'', results)]\<rparr> \<and>
      py_field results ''success'' = Some (PBool True) \<and>
      py_field results ''data'' = Some (PDict metrics_record))"
proof -
  have a5: "path_exists sample_world ''/app/scripts/stripe_balance_payout.py''"
    by (simp add: path_exists_def sample_world_def)
  have a8: "blob_download sample_world (PStr ''finance-operations/uploads/in.csv'') = Downloaded"
    by (simp add: sample_world_def)
  have a9: "subprocess_run sample_world ''/app/scripts/stripe_balance_payout.py''
              (tmp_name sample_world) ''exec-1''
              = Completed 0 (''progress'' @ [CHR 0x0A] @ metrics_line @ [CHR 0x0A]) ''INFO: done''"
    by (simp add: sample_world_def)
  have a11: "json_loads sample_world metrics_line = Some (PDict metrics_record)"
    by (simp add: sample_world_def sample_loads_def)
  have a12: "result_file_path \<notin> set (script_effect sample_world ''/app/scripts/stripe_balance_payout.py''
                 (tmp_name sample_world) ''exec-1'' (List.insert (tmp_name sample_world) (fs sample_world))) \<or>
           (\<exists>descriptor. storage_upload sample_world result_file_path (PStr ''exec-1'') = Inr descriptor)"
    by (simp add: sample_world_def result_file_path_def)
  have t: "tmp_name sample_world = ''/tmp/tmpk3v9x1.csv''"
    by (simp add: sample_world_def)
  from metrics_equal_last_line_record [OF sample_loads_stripped sample_request_facts(1) a5 sample_request_facts(2,3) a8 a9
           sample_output_last_line a11 a12] a9 t
  show ?thesis by simp
qed

section \<open>Runs on which the processor misses its contract\<close>

text \<open>
  C2. The cleanup block stands only in the normal flow of the \<^verbatim>\<open>try\<close> block; the
  \<^verbatim>\<open>except Exception\<close> handler does not run it. In the sample run the script leaves
  \<^verbatim>\<open>/tmp/result.csv\<close> and the upload raises: after the call the downloaded input
  file and \<^verbatim>\<open>/tmp/result.csv\<close> are both still there, and nothing was unlinked.
\<close>

theorem staging_files_remain_after_upload_error:
  "fs result_file_world = [''/app/scripts/stripe_balance_payout.py''] \<and>
   fs (fst (process_finance_operation result_file_world (Inr (PDict sample_request)))) =
     [''/tmp/result.csv'', ''/tmp/tmpk3v9x1.csv'', ''/app/scripts/stripe_balance_payout.py''] \<and>
   events_of KUnlink (fst (process_finance_operation result_file_world (Inr (PDict sample_request)))) = []"
  by (simp add: pipeline_defs result_file_world_def sample_world_def sample_request_def
                sample_loads_def metrics_line_def events_of_def Let_def)

text \<open>
  C5. The script exits 0 and its last line is the JSON number 42. The parse step
  does not raise, but what it yields is the integer 42, not a mapping; the next
  statement, \<^verbatim>\<open>metrics.get('mocked')\<close>, raises \<open>AttributeError\<close>, and the job
  ends with the 500 response.
\<close>

theorem numeric_last_line_fails_job:
  "parse_metrics int_metrics_world
     [(''success'', PBool True), (''stdout'', PStr ''42''), (''stderr'', PStr []),
      (''returncode'', PInt 0)] = PInt 42 \<and>
   snd (process_finance_operation int_metrics_world (Inr (PDict sample_request))) =
     Inr \<lparr>status_code = 500,
          body = PDict [(''success'', PBool False),
                        (''error'', PStr (quoted ''int'' @ '' object has no attribute '' @ quoted ''get''))]\<rparr>"
  by (simp add: pipeline_defs int_metrics_world_def sample_world_def sample_request_def
                sample_loads_def metrics_line_def Let_def)

text \<open>
  C6. The request gives no callback URL and the blob does not exist. The handler
  tests whether \<^verbatim>\<open>callback_url\<close> is bound, not whether it holds a URL, and calls the
  notifier, which posts to the URL None.
\<close>

theorem failure_webhook_posted_without_callback:
  "dict_get no_callback_request ''callbackUrl'' PNone = PNone \<and>
   events_of KPost (fst (process_finance_operation sample_world (Inr (PDict no_callback_request)))) =
     [HttpPost PNone
        (PDict [(''executionId'', PStr ''exec-4''),
                (''status'', PStr ''failed''),
                (''results'', PDict [(''success'', PBool False),
                                    (''message'', PStr ''Processing error: 404 No such object''),
                                    (''errors'', PList [PStr ''404 No such object''])]),
                (''timestamp'', PStr ''2024-05-01T12:00:00'')])
        ''Bearer s3cret'']"
  by (simp add: pipeline_defs sample_world_def no_callback_request_def events_of_def Let_def)

end
